theory Spec2Isabelle
  imports Complex_Main
begin

section \<open>DroneCommand backend: data model\<close>

text \<open>
  A shallow embedding of the message router of the DroneCommand backend
  (\<^verbatim>\<open>backend/rabbitmq_service/consumer.py\<close>), of the services it calls
  (\<^verbatim>\<open>backend/api/services\<close>, \<^verbatim>\<open>backend/detection/detector.py\<close>,
  \<^verbatim>\<open>backend/rabbitmq_service/manager.py\<close>) and of the Django models they store
  (\<^verbatim>\<open>backend/api/models.py\<close>).

  Python dictionaries that travel as JSON are values of \<open>json\<close>; a dictionary is an
  association list in the order the source writes its keys, each key once. Strings are
  byte strings (UTF-8), timestamps are natural numbers, a UUID is its canonical string.
\<close>

datatype json =
    JNull
  | JBool bool
  | JInt int
  | JFloat real
  | JStr string
  | JArr "json list"
  | JObj "(string \<times> json) list"

text \<open>\<^verbatim>\<open>d.get(key)\<close> and \<^verbatim>\<open>d.get(key, default)\<close>.\<close>

definition get :: "(string \<times> json) list \<Rightarrow> string \<Rightarrow> json" where
  "get d k = (case map_of d k of None \<Rightarrow> JNull | Some v \<Rightarrow> v)"

definition get_default :: "(string \<times> json) list \<Rightarrow> string \<Rightarrow> json \<Rightarrow> json" where
  "get_default d k dflt = (case map_of d k of None \<Rightarrow> dflt | Some v \<Rightarrow> v)"

text \<open>Python truth value of a decoded JSON value (\<^verbatim>\<open>if not frame_data\<close>).\<close>

fun truthy :: "json \<Rightarrow> bool" where
  "truthy JNull = False"
| "truthy (JBool b) = b"
| "truthy (JInt i) = (i \<noteq> 0)"
| "truthy (JFloat r) = (r \<noteq> 0)"
| "truthy (JStr s) = (s \<noteq> [])"
| "truthy (JArr xs) = (xs \<noteq> [])"
| "truthy (JObj kvs) = (kvs \<noteq> [])"

type_synonym uuid = string
type_synonym datetime = nat

subsection \<open>Enumerations of \<^verbatim>\<open>models.py\<close>\<close>

text \<open>
  \<^verbatim>\<open>DroneStatus\<close> is a \<^verbatim>\<open>TextChoices\<close>: its members are the strings stored in
  \<^verbatim>\<open>Drone.last_status\<close>. The two members with letters outside ASCII are written
  as their UTF-8 bytes.
\<close>

definition IDLE :: string where "IDLE = ''Beklemede''"
definition PATROLLING :: string where "PATROLLING = ''Devriyede''"
definition RETURNING :: string where
  "RETURNING = ''D'' @ [CHR 0xC3, CHR 0xB6] @ ''n'' @ [CHR 0xC3, CHR 0xBC] @ ''yor''"
definition OFFLINE :: string where
  "OFFLINE = [CHR 0xC3, CHR 0x87] @ ''evrimd'' @ [CHR 0xC4, CHR 0xB1, CHR 0xC5, CHR 0x9F, CHR 0xC4, CHR 0xB1]"
definition HOVERING :: string where "HOVERING = ''Havada Sabit''"
definition FOLLOWING_PATH :: string where "FOLLOWING_PATH = ''Rota Takibi''"
definition SCANNING :: string where "SCANNING = ''Taramada''"

datatype log_type = INFO | WARNING | ALERT | ACTION | FIRE_DETECTED | SMOKE_DETECTED

subsection \<open>Model rows\<close>

record drone =
  drone_id :: string
  name :: string
  model :: string
  gui_token :: uuid
  telemetry_topic :: string
  command_topic :: string
  video_topic :: string
  alert_topic :: string
  last_status :: string
  last_seen :: "datetime option"
  is_active :: bool
  registered_at :: datetime
  updated_at :: datetime

text \<open>
  \<^verbatim>\<open>ScanSession.drone\<close> and \<^verbatim>\<open>LogEntry.drone\<close> are foreign keys; the model stores the
  \<^verbatim>\<open>drone_id\<close> of the row they point to (\<^verbatim>\<open>drone_id\<close> is unique and no code path
  rewrites it).
\<close>

record scan_session =
  session_id :: uuid
  session_drone :: string
  session_is_active :: bool
  started_at :: datetime
  ended_at :: "datetime option"
  total_frames_processed :: int
  fire_detections :: int
  smoke_detections :: int

text \<open>
  The text of a log entry is an f-string; the model keeps the template and its
  arguments rather than the rendered characters.
\<close>

datatype log_text =
    ScanStartedText uuid
  | ScanStoppedText int int
  | RouterDetectionText string real
  | DetectorDetectionText string real
  | AlertText json

record log_entry =
  source :: string
  message :: log_text
  log_type :: log_type
  log_drone :: "string option"
  confidence :: "real option"
  detection_class :: string
  bbox :: json
  frame_path :: string
  position_x :: "real option"
  position_y :: "real option"
  latitude :: "real option"
  longitude :: "real option"
  timestamp :: datetime
  created_at :: datetime

subsection \<open>Broker traffic\<close>

datatype exchange =
  EXCHANGE_TELEMETRY | EXCHANGE_COMMANDS | EXCHANGE_VIDEO | EXCHANGE_ALERTS | EXCHANGE_GUI

text \<open>One \<^verbatim>\<open>basic_publish\<close> call; \<open>body\<close> is the payload before \<^verbatim>\<open>json.dumps\<close>.\<close>

record amqp_message =
  exchange :: exchange
  routing_key :: string
  delivery_mode :: nat
  body :: json

text \<open>An entry of \<^verbatim>\<open>DetectionService.active_sessions\<close>.\<close>

record dispatch =
  dispatch_session_id :: string
  dispatch_is_active :: bool
  frames_processed :: int

subsection \<open>The state the router works on\<close>

text \<open>
  \<open>drones\<close>, \<open>sessions\<close> and \<open>logs\<close> are the Drone, ScanSession and LogEntry
  tables. A Drone row is identified by its unique \<^verbatim>\<open>drone_id\<close>; a session's primary
  key is its position, and the \<^verbatim>\<open>id\<close> of a log entry is its position counted from 1,
  as the database numbers the rows (rows are appended and never deleted).
  \<open>active_sessions\<close> and \<open>is_loaded\<close> are the in-process state of \<^verbatim>\<open>DetectionService\<close> and \<^verbatim>\<open>FireSmokeDetector\<close>.
  \<open>published\<close> lists the \<^verbatim>\<open>basic_publish\<close> calls issued so far, oldest first.
\<close>

record world =
  drones :: "drone list"
  sessions :: "scan_session list"
  logs :: "log_entry list"
  active_sessions :: "string \<rightharpoonup> dispatch"
  is_loaded :: bool
  published :: "amqp_message list"

text \<open>
  The exceptions the services and the detector raise. What a handler's own statements raise
  (\<^verbatim>\<open>json.loads\<close> on a malformed body, \<^verbatim>\<open>.get\<close> on a value that is not a dictionary)
  goes straight to the handler's \<^verbatim>\<open>except\<close> branch.
\<close>

datatype exn =
    DroneNotFound string
  | DoesNotExist
  | DatabaseError
  | OperationalError

text \<open>
  The database statements of \<^verbatim>\<open>FireSmokeDetector._log_detection\<close>, which catches
  \<^verbatim>\<open>DoesNotExist\<close> only: the lookup of the drone, the insert of a log entry (numbered
  from 0 within the call), the lookup of the session and its save. A \<open>db_fault\<close> names
  the one that raises in a run, if any; what it raises leaves the detection pipeline.
\<close>

datatype db_fault =
  NoFault | DroneGetFault | LogInsertFault nat | SessionGetFault | SessionSaveFault

datatype frame = Image string | NotImage json

record box =
  box_name :: string
  box_conf :: real
  box_xyxy :: "real list"

datatype yolo_outcome = Raised string | Boxes "box list"

record detection =
  det_class :: string
  det_confidence :: real
  det_bbox :: "real list"
  det_timestamp :: string

text \<open>
  What a handler reads from outside the program while it processes one message:
  \<open>json_loads\<close> is \<^verbatim>\<open>json.loads\<close> (\<open>None\<close> when it raises), \<open>now\<close> the clock
  (\<^verbatim>\<open>timezone.now()\<close>, \<^verbatim>\<open>datetime.now()\<close>; one reading serves the whole run of a
  handler), \<open>isoformat\<close> the rendering of \<^verbatim>\<open>timezone.now().isoformat()\<close> and
  \<open>local_isoformat\<close> that of \<^verbatim>\<open>datetime.now().isoformat()\<close> (a naive local time),
  \<open>uuid4\<close> the next \<^verbatim>\<open>uuid.uuid4()\<close>, \<open>to_char\<close> the text Django stores in a
  \<^verbatim>\<open>CharField\<close> for a value that is neither a string nor null, \<open>detector_fault\<close> the
  database statement of the detector that fails. The detection model is opaque: \<open>load_model_ok\<close> says
  whether loading the weights succeeds, \<open>decode_base64\<close> is \<^verbatim>\<open>_decode_base64\<close>
  (\<open>None\<close> for an undecodable frame), \<open>yolo\<close> is the outcome of the guarded block of
  \<^verbatim>\<open>detect\<close> up to the boxes it found (\<open>Raised\<close> when anything in it raises), and
  \<open>annotate\<close> the value stored as \<^verbatim>\<open>annotated_frame\<close>.
\<close>

record env =
  json_loads :: "string \<Rightarrow> json option"
  now :: datetime
  isoformat :: "datetime \<Rightarrow> string"
  local_isoformat :: "datetime \<Rightarrow> string"
  uuid4 :: uuid
  to_char :: "json \<Rightarrow> string"
  load_model_ok :: bool
  decode_base64 :: "string \<Rightarrow> string option"
  yolo :: "frame \<Rightarrow> yolo_outcome"
  annotate :: "frame \<Rightarrow> detection list \<Rightarrow> json"
  detector_fault :: db_fault

section \<open>Models: \<^verbatim>\<open>Drone.save\<close> and the ORM calls the services use\<close>

text \<open>The four drone-facing routing keys, as \<^verbatim>\<open>Drone.save\<close> derives them.\<close>

definition derived_topics :: "string \<Rightarrow> string \<times> string \<times> string \<times> string" where
  "derived_topics did =
     (let base = ''drone.'' @ did
      in (base @ ''.telemetry'', base @ ''.commands'', base @ ''.video'', base @ ''.alerts''))"

text \<open>The \<^verbatim>\<open>topics\<close> property, in the order telemetry, commands, video, alerts.\<close>

definition topics :: "drone \<Rightarrow> string \<times> string \<times> string \<times> string" where
  "topics d = (telemetry_topic d, command_topic d, video_topic d, alert_topic d)"

datatype drone_field = F_is_active | F_last_seen | F_last_status | F_updated_at

text \<open>\<open>write_drone_field self f row\<close> copies column \<open>f\<close> of the object into the row.\<close>

fun write_drone_field :: "drone \<Rightarrow> drone_field \<Rightarrow> drone \<Rightarrow> drone" where
  "write_drone_field self F_is_active row = row\<lparr>is_active := is_active self\<rparr>"
| "write_drone_field self F_last_seen row = row\<lparr>last_seen := last_seen self\<rparr>"
| "write_drone_field self F_last_status row = row\<lparr>last_status := last_status self\<rparr>"
| "write_drone_field self F_updated_at row = row\<lparr>updated_at := updated_at self\<rparr>"

text \<open>
  \<^verbatim>\<open>Drone.save\<close>: the hook fills the topics when \<^verbatim>\<open>telemetry_topic\<close> is empty, then
  \<^verbatim>\<open>super().save\<close> writes the object. Without \<^verbatim>\<open>update_fields\<close> every column is
  written, a new row being appended when the table has none for this \<^verbatim>\<open>drone_id\<close>
  (\<^verbatim>\<open>registered_at\<close> is \<^verbatim>\<open>auto_now_add\<close>: set on insert); with
  \<^verbatim>\<open>update_fields\<close> only the listed columns are, and Django raises
  \<^verbatim>\<open>DatabaseError\<close> when no row is affected. \<^verbatim>\<open>updated_at\<close> is \<^verbatim>\<open>auto_now\<close>: it
  is set to the clock whenever it is among the columns written. The object after the
  call is returned with the new state.
\<close>

definition Drone_objects_get :: "string \<Rightarrow> world \<Rightarrow> drone option" where
  "Drone_objects_get did w = find (\<lambda>d. drone_id d = did) (drones w)"

definition Drone_save :: "env \<Rightarrow> drone_field list option \<Rightarrow> drone \<Rightarrow> world \<Rightarrow> (exn + drone) \<times> world" where
  "Drone_save e update_fields self w =
     (let self1 =
        (if telemetry_topic self = []
         then (case derived_topics (drone_id self) of (t, c, v, a) \<Rightarrow>
                 self\<lparr>telemetry_topic := t, command_topic := c, video_topic := v, alert_topic := a\<rparr>)
         else self)
      in case update_fields of
           None \<Rightarrow>
             (case Drone_objects_get (drone_id self1) w of
                None \<Rightarrow>
                  (let self2 = self1\<lparr>registered_at := now e, updated_at := now e\<rparr>
                   in (Inr self2, w\<lparr>drones := drones w @ [self2]\<rparr>))
              | Some row \<Rightarrow>
                  (let self2 = self1\<lparr>updated_at := now e\<rparr>
                   in (Inr self2,
                       w\<lparr>drones := map (\<lambda>r. if drone_id r = drone_id self1 then self2 else r)
                                      (drones w)\<rparr>)))
         | Some fs \<Rightarrow>
             (case Drone_objects_get (drone_id self1) w of
                None \<Rightarrow> (Inl DatabaseError, w)
              | Some row \<Rightarrow>
                  (let self2 = (if F_updated_at \<in> set fs then self1\<lparr>updated_at := now e\<rparr> else self1)
                   in (Inr self2,
                       w\<lparr>drones := map (\<lambda>r. if drone_id r = drone_id self1
                                             then foldl (\<lambda>r f. write_drone_field self2 f r) r fs
                                             else r)
                                      (drones w)\<rparr>))))"

text \<open>\<^verbatim>\<open>Drone.objects.create(drone_id=..., name=..., model=...)\<close> with the field defaults.\<close>

definition Drone_objects_create :: "env \<Rightarrow> string \<Rightarrow> string \<Rightarrow> string \<Rightarrow> world \<Rightarrow> (exn + drone) \<times> world" where
  "Drone_objects_create e did nm mdl w =
     Drone_save e None
       \<lparr>drone_id = did, name = nm, model = mdl, gui_token = uuid4 e,
        telemetry_topic = [], command_topic = [], video_topic = [], alert_topic = [],
        last_status = OFFLINE, last_seen = None, is_active = True,
        registered_at = now e, updated_at = now e\<rparr> w"

datatype session_field =
  F_session_is_active | F_ended_at | F_total_frames_processed | F_fire_detections | F_smoke_detections

fun write_session_field :: "scan_session \<Rightarrow> session_field \<Rightarrow> scan_session \<Rightarrow> scan_session" where
  "write_session_field self F_session_is_active row = row\<lparr>session_is_active := session_is_active self\<rparr>"
| "write_session_field self F_ended_at row = row\<lparr>ended_at := ended_at self\<rparr>"
| "write_session_field self F_total_frames_processed row =
     row\<lparr>total_frames_processed := total_frames_processed self\<rparr>"
| "write_session_field self F_fire_detections row = row\<lparr>fire_detections := fire_detections self\<rparr>"
| "write_session_field self F_smoke_detections row = row\<lparr>smoke_detections := smoke_detections self\<rparr>"

text \<open>
  \<^verbatim>\<open>session.save(update_fields=...)\<close> and \<^verbatim>\<open>session.save()\<close> on a loaded object
  \<open>(pk, self)\<close>. A row that is gone makes the first raise \<^verbatim>\<open>DatabaseError\<close>; the
  second would insert, which no caller reaches (it saves what it has just loaded), so
  the model reports the same error there.
\<close>

definition ScanSession_save :: "session_field list option \<Rightarrow> nat \<times> scan_session \<Rightarrow> world \<Rightarrow> (exn + unit) \<times> world" where
  "ScanSession_save update_fields obj w =
     (case obj of (pk, self) \<Rightarrow>
        if pk < length (sessions w)
        then (Inr (),
              w\<lparr>sessions := (sessions w)[pk :=
                   (case update_fields of
                      None \<Rightarrow> self
                    | Some fs \<Rightarrow> foldl (\<lambda>r f. write_session_field self f r) (sessions w ! pk) fs)]\<rparr>)
        else (Inl DatabaseError, w))"

text \<open>\<^verbatim>\<open>ScanSession.objects.filter(drone=drone, is_active=True)\<close>, rows with their keys.\<close>

definition filter_active :: "string \<Rightarrow> world \<Rightarrow> (nat \<times> scan_session) list" where
  "filter_active did w =
     filter (\<lambda>(pk, s). session_drone s = did \<and> session_is_active s) (enumerate 0 (sessions w))"

text \<open>
  \<^verbatim>\<open>.first()\<close> under the model's ordering \<^verbatim>\<open>['-started_at']\<close>: the row started last;
  among rows started at the same instant the database chooses, the model takes the
  lowest key.
\<close>

fun first_by_started_at :: "(nat \<times> scan_session) list \<Rightarrow> (nat \<times> scan_session) option" where
  "first_by_started_at [] = None"
| "first_by_started_at (x # xs) =
     (case first_by_started_at xs of
        None \<Rightarrow> Some x
      | Some y \<Rightarrow> if started_at (snd x) < started_at (snd y) then Some y else Some x)"

definition first_active :: "string \<Rightarrow> world \<Rightarrow> (nat \<times> scan_session) option" where
  "first_active did w = first_by_started_at (filter_active did w)"

text \<open>
  \<^verbatim>\<open>LogEntry.objects.create(...)\<close>: the caller's fields over the defaults; returns the
  \<^verbatim>\<open>id\<close> of the new row.
\<close>

definition LogEntry_defaults :: "env \<Rightarrow> log_entry" where
  "LogEntry_defaults e =
     \<lparr>source = [], message = AlertText JNull, log_type = INFO, log_drone = None,
      confidence = None, detection_class = [], bbox = JNull, frame_path = [],
      position_x = None, position_y = None, latitude = None, longitude = None,
      timestamp = now e, created_at = now e\<rparr>"

definition LogEntry_objects_create :: "log_entry \<Rightarrow> world \<Rightarrow> nat \<times> world" where
  "LogEntry_objects_create entry w = (Suc (length (logs w)), w\<lparr>logs := logs w @ [entry]\<rparr>)"

section \<open>Services (\<^verbatim>\<open>api/services\<close>)\<close>

subsection \<open>\<^verbatim>\<open>DroneService\<close>\<close>

definition DroneService_get_by_id :: "string \<Rightarrow> world \<Rightarrow> exn + drone" where
  "DroneService_get_by_id did w =
     (case Drone_objects_get did w of None \<Rightarrow> Inl (DroneNotFound did) | Some d \<Rightarrow> Inr d)"

text \<open>\<^verbatim>\<open>register\<close> returns the pair \<^verbatim>\<open>(drone, created)\<close>.\<close>

definition DroneService_register ::
    "env \<Rightarrow> string \<Rightarrow> string \<Rightarrow> string \<Rightarrow> world \<Rightarrow> (exn + drone \<times> bool) \<times> world" where
  "DroneService_register e did nm mdl w =
     (case Drone_objects_get did w of
        Some existing \<Rightarrow>
          (case Drone_save e (Some [F_is_active, F_last_seen, F_updated_at])
                  (existing\<lparr>is_active := True, last_seen := Some (now e)\<rparr>) w of
             (Inl x, w') \<Rightarrow> (Inl x, w')
           | (Inr existing', w') \<Rightarrow> (Inr (existing', False), w'))
      | None \<Rightarrow>
          (case Drone_objects_create e did nm mdl w of
             (Inl x, w') \<Rightarrow> (Inl x, w')
           | (Inr d, w') \<Rightarrow> (Inr (d, True), w')))"

definition DroneService_update_status :: "env \<Rightarrow> drone \<Rightarrow> string \<Rightarrow> world \<Rightarrow> (exn + drone) \<times> world" where
  "DroneService_update_status e d new_status w =
     Drone_save e (Some [F_last_status, F_last_seen, F_updated_at])
       (d\<lparr>last_status := new_status, last_seen := Some (now e)\<rparr>) w"

subsection \<open>\<^verbatim>\<open>LogService\<close>\<close>

definition LogService_create ::
    "env \<Rightarrow> string \<Rightarrow> log_text \<Rightarrow> log_type \<Rightarrow> string option \<Rightarrow> world \<Rightarrow> nat \<times> world" where
  "LogService_create e src msg lt d w =
     LogEntry_objects_create
       ((LogEntry_defaults e)\<lparr>source := src, message := msg, log_type := lt, log_drone := d\<rparr>) w"

definition LogService_log_drone_event ::
    "env \<Rightarrow> drone \<Rightarrow> log_text \<Rightarrow> log_type \<Rightarrow> world \<Rightarrow> nat \<times> world" where
  "LogService_log_drone_event e d msg lt w =
     LogService_create e (name d) msg lt (Some (drone_id d)) w"

subsection \<open>\<^verbatim>\<open>ScanService\<close>\<close>

text \<open>
  \<^verbatim>\<open>start\<close>: look the drone up (\<^verbatim>\<open>DroneNotFound\<close> when it is not registered), close
  every active session of the drone with one \<^verbatim>\<open>update\<close>, create the new session,
  set the drone's status and write the audit entry. The session is returned with
  its key.
\<close>

definition ScanService_start :: "env \<Rightarrow> string \<Rightarrow> world \<Rightarrow> (exn + nat \<times> scan_session) \<times> world" where
  "ScanService_start e did w =
     (case DroneService_get_by_id did w of
        Inl x \<Rightarrow> (Inl x, w)
      | Inr d \<Rightarrow>
          (let w1 = w\<lparr>sessions :=
                      map (\<lambda>s. if session_drone s = drone_id d \<and> session_is_active s
                                then s\<lparr>session_is_active := False, ended_at := Some (now e)\<rparr>
                                else s)
                          (sessions w)\<rparr>;
               session = \<lparr>session_id = uuid4 e, session_drone = drone_id d,
                          session_is_active = True, started_at = now e, ended_at = None,
                          total_frames_processed = 0, fire_detections = 0, smoke_detections = 0\<rparr>;
               pk = length (sessions w1);
               w2 = w1\<lparr>sessions := sessions w1 @ [session]\<rparr>
           in case DroneService_update_status e d SCANNING w2 of
                (Inl x, w3) \<Rightarrow> (Inl x, w3)
              | (Inr d', w3) \<Rightarrow>
                  (case LogService_log_drone_event e d' (ScanStartedText (session_id session)) ACTION w3 of
                     (entry, w4) \<Rightarrow> (Inr (pk, session), w4))))"

text \<open>
  \<^verbatim>\<open>stop\<close>: \<^verbatim>\<open>session.drone\<close> follows the foreign key (\<^verbatim>\<open>DoesNotExist\<close> if the row
  were gone).
\<close>

definition ScanService_stop :: "env \<Rightarrow> nat \<times> scan_session \<Rightarrow> world \<Rightarrow> (exn + nat \<times> scan_session) \<times> world" where
  "ScanService_stop e obj w =
     (case obj of (pk, session0) \<Rightarrow>
        (let session = session0\<lparr>session_is_active := False, ended_at := Some (now e)\<rparr>
         in case ScanSession_save (Some [F_session_is_active, F_ended_at]) (pk, session) w of
              (Inl x, w1) \<Rightarrow> (Inl x, w1)
            | (Inr u, w1) \<Rightarrow>
                (case Drone_objects_get (session_drone session) w1 of
                   None \<Rightarrow> (Inl DoesNotExist, w1)
                 | Some d \<Rightarrow>
                     (case DroneService_update_status e d HOVERING w1 of
                        (Inl x, w2) \<Rightarrow> (Inl x, w2)
                      | (Inr d', w2) \<Rightarrow>
                          (case LogService_log_drone_event e d'
                                  (ScanStoppedText (fire_detections session) (smoke_detections session))
                                  INFO w2 of
                             (entry, w3) \<Rightarrow> (Inr (pk, session), w3))))))"

text \<open>\<^verbatim>\<open>record_frame\<close> mutates the session object and saves the columns it touched.\<close>

definition ScanService_record_frame ::
    "nat \<times> scan_session \<Rightarrow> bool \<Rightarrow> bool \<Rightarrow> world \<Rightarrow> (exn + nat \<times> scan_session) \<times> world" where
  "ScanService_record_frame obj has_fire has_smoke w =
     (case obj of (pk, session0) \<Rightarrow>
        (let s1 = session0\<lparr>total_frames_processed := total_frames_processed session0 + 1\<rparr>;
             f1 = [F_total_frames_processed];
             s2 = (if has_fire then s1\<lparr>fire_detections := fire_detections s1 + 1\<rparr> else s1);
             f2 = (if has_fire then f1 @ [F_fire_detections] else f1);
             s3 = (if has_smoke then s2\<lparr>smoke_detections := smoke_detections s2 + 1\<rparr> else s2);
             f3 = (if has_smoke then f2 @ [F_smoke_detections] else f2)
         in case ScanSession_save (Some f3) (pk, s3) w of
              (Inl x, w') \<Rightarrow> (Inl x, w')
            | (Inr u, w') \<Rightarrow> (Inr (pk, s3), w')))"

text \<open>\<open>n\<close> calls of \<^verbatim>\<open>record_frame(session, False, False)\<close> on the same session object.\<close>

fun record_frame_times :: "nat \<Rightarrow> nat \<times> scan_session \<Rightarrow> world \<Rightarrow> (exn + nat \<times> scan_session) \<times> world" where
  "record_frame_times 0 obj w = (Inr obj, w)"
| "record_frame_times (Suc n) obj w =
     (case ScanService_record_frame obj False False w of
        (Inl x, w') \<Rightarrow> (Inl x, w')
      | (Inr obj', w') \<Rightarrow> record_frame_times n obj' w')"

text \<open>
  A run of \<^verbatim>\<open>start\<close> calls for one drone, each at its own instant and with its own
  fresh UUID; a call that raises leaves the run going, as the router moves on to the
  next command.
\<close>

fun start_each :: "string \<Rightarrow> env list \<Rightarrow> world \<Rightarrow> world" where
  "start_each did [] w = w"
| "start_each did (e # es) w = start_each did es (snd (ScanService_start e did w))"

section \<open>Publishing\<close>

text \<open>
  \<^verbatim>\<open>UnifiedConsumer._publish_gui\<close>. The helper swallows whatever \<^verbatim>\<open>basic_publish\<close>
  raises, so it never fails; the model records the call it issues.
\<close>

definition publish_gui :: "string \<Rightarrow> string \<Rightarrow> json \<Rightarrow> world \<Rightarrow> world" where
  "publish_gui did message_type payload w =
     (let routing_key = ''gui.'' @ did @ ''.'' @ message_type;
          persistent = (message_type \<notin> set [''video''])
      in w\<lparr>published := published w @
             [\<lparr>exchange = EXCHANGE_GUI, routing_key = routing_key,
               delivery_mode = (if persistent then 2 else 1), body = payload\<rparr>]\<rparr>)"

text \<open>
  \<^verbatim>\<open>RabbitMQManager._publish\<close>, \<^verbatim>\<open>publish_to_gui\<close> and \<^verbatim>\<open>send_command\<close>. The manager
  opens a connection of its own for each use; the broker is taken to be reachable and
  the model records the publish. \<^verbatim>\<open>publish_to_gui\<close> takes the durability flag from its
  caller (\<^verbatim>\<open>False\<close> when none is given); the router never calls it. The timestamp of
  a command is \<^verbatim>\<open>_ts()\<close>, the naive local rendering of the clock.
\<close>

definition manager_publish :: "exchange \<Rightarrow> string \<Rightarrow> json \<Rightarrow> bool \<Rightarrow> world \<Rightarrow> world" where
  "manager_publish ex rk payload persistent w =
     w\<lparr>published := published w @
         [\<lparr>exchange = ex, routing_key = rk,
           delivery_mode = (if persistent then 2 else 1), body = payload\<rparr>]\<rparr>"

definition publish_to_gui :: "string \<Rightarrow> string \<Rightarrow> json \<Rightarrow> bool \<Rightarrow> world \<Rightarrow> world" where
  "publish_to_gui did message_type payload persistent w =
     manager_publish EXCHANGE_GUI (''gui.'' @ did @ ''.'' @ message_type) payload persistent w"

definition send_command :: "env \<Rightarrow> drone \<Rightarrow> (string \<times> json) list \<Rightarrow> world \<Rightarrow> world" where
  "send_command e d command_data w =
     manager_publish EXCHANGE_COMMANDS (command_topic d)
       (JObj ([(''timestamp'', JStr (local_isoformat e (now e))),
               (''drone_id'', JStr (drone_id d))]
              @ command_data))
       True w"

section \<open>Detection (\<^verbatim>\<open>detection/detector.py\<close>)\<close>

text \<open>
  \<^verbatim>\<open>str.lower\<close> on the letters A to Z; the other bytes stay as they are (the class
  names of a model are ASCII).
\<close>

definition lower_char :: "char \<Rightarrow> char" where
  "lower_char c =
     (let n = (of_char c :: nat) in if 65 \<le> n \<and> n \<le> 90 then char_of (n + 32) else c)"

definition lower :: "string \<Rightarrow> string" where
  "lower s = map lower_char s"

definition fire_names :: "string list" where
  "fire_names = [''fire'', ''flame'', ''yang'' @ [CHR 0xC4, CHR 0xB1] @ ''n'', ''alev'']"

definition smoke_names :: "string list" where
  "smoke_names = [''smoke'', ''duman'']"

text \<open>
  The dictionary \<^verbatim>\<open>detect\<close> returns: \<^verbatim>\<open>{'detections': [], 'error': msg}\<close> or the full
  result with \<^verbatim>\<open>detections\<close>, \<^verbatim>\<open>annotated_frame\<close>, \<^verbatim>\<open>has_fire\<close> and \<^verbatim>\<open>has_smoke\<close>
  (\<^verbatim>\<open>frame_shape\<close> is never read). Either is a non-empty dictionary, so
  \<^verbatim>\<open>if result\<close> holds for both.
\<close>

datatype det_result = DetError string | DetOk "detection list" json bool bool

fun result_detections :: "det_result \<Rightarrow> detection list" where
  "result_detections (DetError msg) = []"
| "result_detections (DetOk ds a hf hs) = ds"

fun result_has_fire :: "det_result \<Rightarrow> bool" where
  "result_has_fire (DetError msg) = False"
| "result_has_fire (DetOk ds a hf hs) = hf"

fun result_has_smoke :: "det_result \<Rightarrow> bool" where
  "result_has_smoke (DetError msg) = False"
| "result_has_smoke (DetOk ds a hf hs) = hs"

text \<open>\<^verbatim>\<open>result.get('annotated_frame', frame_data)\<close>.\<close>

fun result_annotated_frame :: "det_result \<Rightarrow> json \<Rightarrow> json" where
  "result_annotated_frame (DetError msg) frame_data = frame_data"
| "result_annotated_frame (DetOk ds a hf hs) frame_data = a"

definition box_detection :: "env \<Rightarrow> box \<Rightarrow> detection" where
  "box_detection e b =
     \<lparr>det_class =
        (if lower (box_name b) \<in> set fire_names then ''fire''
         else if lower (box_name b) \<in> set smoke_names then ''smoke''
         else box_name b),
      det_confidence = box_conf b, det_bbox = box_xyxy b,
      det_timestamp = local_isoformat e (now e)\<rparr>"

text \<open>
  \<^verbatim>\<open>FireSmokeDetector.detect\<close>. Every failure ends in an error dictionary: the model
  that cannot be loaded, the frame that cannot be decoded, and whatever the guarded
  inference block raises. \<open>decode_frame\<close> is the frame handed to the model: a string
  is decoded (\<open>None\<close> when that fails), any other value is passed as it is.
\<close>

definition decode_frame :: "env \<Rightarrow> json \<Rightarrow> frame option" where
  "decode_frame e frame_data =
     (case frame_data of
        JStr s \<Rightarrow> map_option Image (decode_base64 e s)
      | JNull \<Rightarrow> None
      | v \<Rightarrow> Some (NotImage v))"

definition detect :: "env \<Rightarrow> json \<Rightarrow> world \<Rightarrow> det_result \<times> world" where
  "detect e frame_data w =
     (if \<not> is_loaded w \<and> \<not> load_model_ok e then (DetError ''Model not loaded'', w)
      else
        (let w1 = w\<lparr>is_loaded := True\<rparr>
         in case decode_frame e frame_data of
              None \<Rightarrow> (DetError ''Invalid frame'', w1)
            | Some f \<Rightarrow>
                (case yolo e f of
                   Raised msg \<Rightarrow> (DetError msg, w1)
                 | Boxes bs \<Rightarrow>
                     (let detections = map (box_detection e) bs;
                          has_fire = list_ex (\<lambda>b. lower (box_name b) \<in> set fire_names) bs;
                          has_smoke = list_ex (\<lambda>b. lower (box_name b) \<notin> set fire_names
                                                  \<and> lower (box_name b) \<in> set smoke_names) bs
                      in (DetOk detections (annotate e f detections) has_fire has_smoke, w1)))))"

text \<open>\<^verbatim>\<open>ScanSession.objects.get(session_id=...)\<close>; \<open>None\<close> is \<^verbatim>\<open>DoesNotExist\<close>.\<close>

definition ScanSession_objects_get :: "uuid \<Rightarrow> world \<Rightarrow> (nat \<times> scan_session) option" where
  "ScanSession_objects_get sid w =
     find (\<lambda>(pk, s). session_id s = sid) (enumerate 0 (sessions w))"

definition bbox_json :: "real list \<Rightarrow> json" where
  "bbox_json xs = JArr (map JFloat xs)"

text \<open>
  \<^verbatim>\<open>FireSmokeDetector._log_detection\<close>: a log entry for every fire or smoke
  detection, then the counters of the session named by \<^verbatim>\<open>session_id\<close>, saved with
  a plain \<^verbatim>\<open>save()\<close>. A missing drone or session is passed over; a database statement
  that fails raises \<^verbatim>\<open>OperationalError\<close>, which nothing here catches.
  \<open>detector_log_entries\<close> is the loop over the detections, \<open>k\<close> the number of entries
  it has inserted so far.
\<close>

definition detector_log_entry :: "env \<Rightarrow> drone \<Rightarrow> detection \<Rightarrow> log_entry" where
  "detector_log_entry e d det =
     (LogEntry_defaults e)
       \<lparr>source := name d,
        message := DetectorDetectionText (det_class det) (det_confidence det),
        log_type := (if det_class det = ''fire'' then FIRE_DETECTED else SMOKE_DETECTED),
        log_drone := Some (drone_id d),
        confidence := Some (det_confidence det),
        detection_class := det_class det,
        bbox := bbox_json (det_bbox det)\<rparr>"

fun detector_log_entries ::
    "env \<Rightarrow> drone \<Rightarrow> detection list \<Rightarrow> nat \<Rightarrow> world \<Rightarrow> (exn + unit) \<times> world" where
  "detector_log_entries e d [] k w = (Inr (), w)"
| "detector_log_entries e d (det # ds) k w =
     (if det_class det \<in> set [''fire'', ''smoke'']
      then (if detector_fault e = LogInsertFault k then (Inl OperationalError, w)
            else detector_log_entries e d ds (Suc k)
                   (snd (LogEntry_objects_create (detector_log_entry e d det) w)))
      else detector_log_entries e d ds k w)"

definition detector_log_detection ::
    "env \<Rightarrow> string \<Rightarrow> det_result \<Rightarrow> string \<Rightarrow> world \<Rightarrow> (exn + unit) \<times> world" where
  "detector_log_detection e did result sid w =
     (if detector_fault e = DroneGetFault then (Inl OperationalError, w)
      else
        (case Drone_objects_get did w of
           None \<Rightarrow> (Inr (), w)
         | Some d \<Rightarrow>
             (case detector_log_entries e d (result_detections result) 0 w of
                (Inl x, w1) \<Rightarrow> (Inl x, w1)
              | (Inr u, w1) \<Rightarrow>
                  if sid \<noteq> []
                  then (if detector_fault e = SessionGetFault then (Inl OperationalError, w1)
                        else
                          (case ScanSession_objects_get sid w1 of
                             None \<Rightarrow> (Inr (), w1)
                           | Some (pk, session0) \<Rightarrow>
                               (let s1 = session0\<lparr>total_frames_processed :=
                                                      total_frames_processed session0 + 1\<rparr>;
                                    s2 = (if result_has_fire result
                                          then s1\<lparr>fire_detections := fire_detections s1 + 1\<rparr>
                                          else s1);
                                    s3 = (if result_has_smoke result
                                          then s2\<lparr>smoke_detections := smoke_detections s2 + 1\<rparr>
                                          else s2)
                                in if detector_fault e = SessionSaveFault
                                   then (Inl OperationalError, w1)
                                   else ScanSession_save None (pk, s3) w1)))
                  else (Inr (), w1))))"

definition process_video_frame ::
    "env \<Rightarrow> string \<Rightarrow> json \<Rightarrow> string \<Rightarrow> world \<Rightarrow> (exn + det_result) \<times> world" where
  "process_video_frame e did frame_data sid w =
     (case detect e frame_data w of
        (result, w1) \<Rightarrow>
          if result_has_fire result \<or> result_has_smoke result
          then (case detector_log_detection e did result sid w1 of
                  (Inl x, w2) \<Rightarrow> (Inl x, w2)
                | (Inr u, w2) \<Rightarrow> (Inr result, w2))
          else (Inr result, w1))"

subsection \<open>\<^verbatim>\<open>DetectionService\<close>\<close>

definition start_detection :: "string \<Rightarrow> string \<Rightarrow> world \<Rightarrow> world" where
  "start_detection did sid w =
     w\<lparr>active_sessions := (active_sessions w)(did \<mapsto>
          \<lparr>dispatch_session_id = sid, dispatch_is_active = True, frames_processed = 0\<rparr>)\<rparr>"

definition stop_detection :: "string \<Rightarrow> world \<Rightarrow> world" where
  "stop_detection did w =
     (if did \<in> dom (active_sessions w)
      then w\<lparr>active_sessions := (active_sessions w)(did := None)\<rparr>
      else w)"

definition detection_is_active :: "string \<Rightarrow> world \<Rightarrow> bool" where
  "detection_is_active did w =
     (case active_sessions w did of None \<Rightarrow> False | Some entry \<Rightarrow> dispatch_is_active entry)"

text \<open>\<^verbatim>\<open>process_frame\<close> returns \<^verbatim>\<open>None\<close> when detection is not active for the drone.\<close>

definition process_frame ::
    "env \<Rightarrow> string \<Rightarrow> json \<Rightarrow> world \<Rightarrow> (exn + det_result option) \<times> world" where
  "process_frame e did frame_data w =
     (case active_sessions w did of
        None \<Rightarrow> (Inr None, w)
      | Some entry \<Rightarrow>
          if \<not> dispatch_is_active entry then (Inr None, w)
          else (case process_video_frame e did frame_data (dispatch_session_id entry) w of
                  (Inl x, w1) \<Rightarrow> (Inl x, w1)
                | (Inr result, w1) \<Rightarrow>
                    (Inr (Some result),
                     w1\<lparr>active_sessions :=
                          (case active_sessions w1 did of
                             None \<Rightarrow> active_sessions w1
                           | Some entry1 \<Rightarrow> (active_sessions w1)(did \<mapsto>
                               entry1\<lparr>frames_processed := frames_processed entry1 + 1\<rparr>))\<rparr>)))"

section \<open>The unified consumer (\<^verbatim>\<open>rabbitmq_service/consumer.py\<close>)\<close>

text \<open>
  What a handler tells the broker about the delivery: \<^verbatim>\<open>basic_ack\<close>, or
  \<^verbatim>\<open>basic_nack\<close> with its \<^verbatim>\<open>requeue\<close> flag.
\<close>

datatype ack = Ack | Nack bool

definition detection_json :: "detection \<Rightarrow> json" where
  "detection_json det =
     JObj [(''class'', JStr (det_class det)), (''confidence'', JFloat (det_confidence det)),
           (''bbox'', bbox_json (det_bbox det)), (''timestamp'', JStr (det_timestamp det))]"

text \<open>
  \<^verbatim>\<open>UnifiedConsumer._log_detection\<close>: for every fire or smoke detection a log entry and
  a \<^verbatim>\<open>DETECTION_ALERT\<close> on the alerts topic that carries the entry's key.
\<close>

definition consumer_log_entry :: "env \<Rightarrow> drone \<Rightarrow> detection \<Rightarrow> log_entry" where
  "consumer_log_entry e d det =
     (LogEntry_defaults e)
       \<lparr>source := name d,
        message := RouterDetectionText (det_class det) (det_confidence det),
        log_type := (if det_class det = ''fire'' then FIRE_DETECTED else SMOKE_DETECTED),
        log_drone := Some (drone_id d),
        confidence := Some (det_confidence det),
        detection_class := det_class det,
        bbox := bbox_json (det_bbox det)\<rparr>"

definition consumer_log_detection :: "env \<Rightarrow> drone \<Rightarrow> det_result \<Rightarrow> world \<Rightarrow> world" where
  "consumer_log_detection e d result w =
     foldl (\<lambda>w det.
              if det_class det \<in> set [''fire'', ''smoke'']
              then (case LogEntry_objects_create (consumer_log_entry e d det) w of
                      (entry_id, w1) \<Rightarrow>
                        publish_gui (drone_id d) ''alerts''
                          (JObj [(''type'', JStr ''DETECTION_ALERT''),
                                 (''timestamp'', JStr (isoformat e (now e))),
                                 (''drone_id'', JStr (drone_id d)),
                                 (''detection_class'', JStr (det_class det)),
                                 (''confidence'', JFloat (det_confidence det)),
                                 (''bbox'', bbox_json (det_bbox det)),
                                 (''log_id'', JInt (int entry_id))]) w1)
              else w)
           w (result_detections result)"

text \<open>
  \<^verbatim>\<open>_update_session_stats\<close> works on the session object the handler loaded before
  detection ran and saves the columns it touched.
\<close>

definition update_session_stats :: "nat \<times> scan_session \<Rightarrow> det_result \<Rightarrow> world \<Rightarrow> (exn + unit) \<times> world" where
  "update_session_stats obj result w =
     (case obj of (pk, session0) \<Rightarrow>
        (let f1 = [F_total_frames_processed];
             s1 = session0\<lparr>total_frames_processed := total_frames_processed session0 + 1\<rparr>;
             s2 = (if result_has_fire result
                   then s1\<lparr>fire_detections := fire_detections s1 + 1\<rparr> else s1);
             f2 = (if result_has_fire result then f1 @ [F_fire_detections] else f1);
             s3 = (if result_has_smoke result
                   then s2\<lparr>smoke_detections := smoke_detections s2 + 1\<rparr> else s2);
             f3 = (if result_has_smoke result then f2 @ [F_smoke_detections] else f2)
         in ScanSession_save (Some f3) (pk, s3) w))"

text \<open>
  The handlers. Each runs inside \<^verbatim>\<open>try\<close>: whatever is raised ends in
  \<^verbatim>\<open>basic_nack(requeue=False)\<close>, with the effects that happened before it kept.
  \<^verbatim>\<open>message.get\<close> on a decoded value that is not a dictionary raises
  \<^verbatim>\<open>AttributeError\<close>.
\<close>

definition on_video :: "env \<Rightarrow> drone \<Rightarrow> string \<Rightarrow> world \<Rightarrow> ack \<times> world" where
  "on_video e d body_bytes w =
     (case json_loads e body_bytes of
        None \<Rightarrow> (Nack False, w)
      | Some (JObj msg) \<Rightarrow>
          (let frame_data = get msg ''data'';
               frame_number = get_default msg ''frame_number'' (JInt 0);
               ts = get_default msg ''timestamp'' (JStr (isoformat e (now e)))
           in if \<not> truthy frame_data then (Ack, w)
              else
                (case first_active (drone_id d) w of
                   Some active_session \<Rightarrow>
                     (case process_frame e (drone_id d) frame_data w of
                        (Inl x, w1) \<Rightarrow> (Nack False, w1)
                      | (Inr (Some result), w1) \<Rightarrow>
                          (let gui_frame = result_annotated_frame result frame_data;
                               w2 = publish_gui (drone_id d) ''video''
                                      (JObj [(''type'', JStr ''VIDEO_FRAME''), (''timestamp'', ts),
                                             (''drone_id'', JStr (drone_id d)),
                                             (''frame_number'', frame_number),
                                             (''data'', gui_frame),
                                             (''scanning'', JBool True)]) w1;
                               w3 = (if result_detections result \<noteq> []
                                     then publish_gui (drone_id d) ''detection''
                                            (JObj [(''type'', JStr ''DETECTION''),
                                                   (''timestamp'', ts),
                                                   (''drone_id'', JStr (drone_id d)),
                                                   (''frame_number'', frame_number),
                                                   (''detections'',
                                                      JArr (map detection_json (result_detections result))),
                                                   (''has_fire'', JBool (result_has_fire result)),
                                                   (''has_smoke'', JBool (result_has_smoke result))]) w2
                                     else w2);
                               w4 = (if result_has_fire result \<or> result_has_smoke result
                                     then consumer_log_detection e d result w3 else w3)
                           in case update_session_stats active_session result w4 of
                                (Inl x, w5) \<Rightarrow> (Nack False, w5)
                              | (Inr u, w5) \<Rightarrow> (Ack, w5))
                      | (Inr None, w1) \<Rightarrow>
                          (Ack, publish_gui (drone_id d) ''video''
                                  (JObj [(''type'', JStr ''VIDEO_FRAME''), (''timestamp'', ts),
                                         (''drone_id'', JStr (drone_id d)),
                                         (''frame_number'', frame_number),
                                         (''data'', frame_data),
                                         (''scanning'', JBool True)]) w1))
                 | None \<Rightarrow>
                     (Ack, publish_gui (drone_id d) ''video''
                             (JObj [(''type'', JStr ''VIDEO_FRAME''), (''timestamp'', ts),
                                    (''drone_id'', JStr (drone_id d)),
                                    (''frame_number'', frame_number),
                                    (''data'', frame_data),
                                    (''scanning'', JBool False)]) w)))
      | Some other \<Rightarrow> (Nack False, w))"

text \<open>
  The telemetry handler updates the row with a queryset \<^verbatim>\<open>update\<close> (no \<^verbatim>\<open>save\<close>, so
  \<^verbatim>\<open>updated_at\<close> stays); \<open>d\<close> is the drone object bound when the consumer was set up.
  A \<^verbatim>\<open>status\<close> that is null cannot be stored (\<^verbatim>\<open>last_status\<close> is not nullable): when
  a row would be written the statement raises \<^verbatim>\<open>IntegrityError\<close>, before anything is
  published.
\<close>

definition char_field :: "env \<Rightarrow> json \<Rightarrow> string" where
  "char_field e v = (case v of JStr s \<Rightarrow> s | other \<Rightarrow> to_char e other)"

definition on_telemetry :: "env \<Rightarrow> drone \<Rightarrow> string \<Rightarrow> world \<Rightarrow> ack \<times> world" where
  "on_telemetry e d body_bytes w =
     (case json_loads e body_bytes of
        None \<Rightarrow> (Nack False, w)
      | Some (JObj msg) \<Rightarrow>
          (case get_default msg ''data'' (JObj []) of
             JObj data \<Rightarrow>
               (let status = get_default data ''status'' (JStr (last_status d));
                    w1 = w\<lparr>drones :=
                           map (\<lambda>r. if drone_id r = drone_id d
                                     then r\<lparr>last_status := char_field e status,
                                            last_seen := Some (now e)\<rparr>
                                     else r)
                               (drones w)\<rparr>
                in if status = JNull \<and> Drone_objects_get (drone_id d) w \<noteq> None
                   then (Nack False, w)
                   else (Ack, publish_gui (drone_id d) ''telemetry''
                           (JObj [(''type'', JStr ''TELEMETRY''),
                                  (''timestamp'',
                                     get_default msg ''timestamp'' (JStr (isoformat e (now e)))),
                                  (''drone_id'', JStr (drone_id d)),
                                  (''data'', JObj data)]) w1))
           | other \<Rightarrow> (Nack False, w))
      | Some other \<Rightarrow> (Nack False, w))"

text \<open>
  The alert handler. A \<^verbatim>\<open>message\<close> that is null cannot be stored (the column is not
  nullable): \<^verbatim>\<open>LogEntry.objects.create\<close> raises \<^verbatim>\<open>IntegrityError\<close> and nothing is
  written or published.
\<close>

definition default_alert_text :: string where
  "default_alert_text = ''Alert al'' @ [CHR 0xC4, CHR 0xB1] @ ''nd'' @ [CHR 0xC4, CHR 0xB1]"

definition on_alert :: "env \<Rightarrow> drone \<Rightarrow> string \<Rightarrow> world \<Rightarrow> ack \<times> world" where
  "on_alert e d body_bytes w =
     (case json_loads e body_bytes of
        None \<Rightarrow> (Nack False, w)
      | Some (JObj msg) \<Rightarrow>
          if get_default msg ''message'' (JStr default_alert_text) = JNull then (Nack False, w)
          else
            (case LogEntry_objects_create
                    ((LogEntry_defaults e)
                       \<lparr>source := name d,
                        message := AlertText (get_default msg ''message'' (JStr default_alert_text)),
                        log_type := ALERT,
                        log_drone := Some (drone_id d)\<rparr>) w of
               (entry_id, w1) \<Rightarrow>
                 (Ack, publish_gui (drone_id d) ''alerts''
                         (JObj [(''type'', JStr ''ALERT''),
                                (''timestamp'',
                                   get_default msg ''timestamp'' (JStr (isoformat e (now e)))),
                                (''drone_id'', JStr (drone_id d)),
                                (''message'', get_default msg ''message'' (JStr [])),
                                (''data'', JObj msg)]) w1))
      | Some other \<Rightarrow> (Nack False, w))"

subsection \<open>Scan management\<close>

definition handle_start_scan :: "env \<Rightarrow> drone \<Rightarrow> world \<Rightarrow> (exn + unit) \<times> world" where
  "handle_start_scan e d w =
     (case ScanService_start e (drone_id d) w of
        (Inl x, w1) \<Rightarrow> (Inl x, w1)
      | (Inr (pk, session), w1) \<Rightarrow>
          (let w2 = start_detection (drone_id d) (session_id session) w1;
               w3 = publish_gui (drone_id d) ''status''
                      (JObj [(''type'', JStr ''SCAN_STARTED''),
                             (''timestamp'', JStr (isoformat e (now e))),
                             (''drone_id'', JStr (drone_id d)),
                             (''session_id'', JStr (session_id session))]) w2;
               w4 = send_command e d
                      [(''command'', JStr ''START_SCAN''),
                       (''session_id'', JStr (session_id session))] w3
           in (Inr (), w4)))"

definition handle_stop_scan :: "env \<Rightarrow> drone \<Rightarrow> world \<Rightarrow> (exn + unit) \<times> world" where
  "handle_stop_scan e d w =
     (case first_active (drone_id d) w of
        None \<Rightarrow> (Inr (), w)
      | Some active \<Rightarrow>
          (case ScanService_stop e active w of
             (Inl x, w1) \<Rightarrow> (Inl x, w1)
           | (Inr (pk, session), w1) \<Rightarrow>
               (let w2 = stop_detection (drone_id d) w1;
                    w3 = publish_gui (drone_id d) ''status''
                           (JObj [(''type'', JStr ''SCAN_STOPPED''),
                                  (''timestamp'', JStr (isoformat e (now e))),
                                  (''drone_id'', JStr (drone_id d)),
                                  (''session_id'', JStr (session_id session)),
                                  (''stats'',
                                     JObj [(''total_frames'', JInt (total_frames_processed session)),
                                           (''fire_detections'', JInt (fire_detections session)),
                                           (''smoke_detections'', JInt (smoke_detections session))])]) w2;
                    w4 = send_command e d
                           [(''command'', JStr ''STOP_SCAN''),
                            (''session_id'', JStr (session_id session))] w3
                in (Inr (), w4))))"

definition on_gui_command :: "env \<Rightarrow> drone \<Rightarrow> string \<Rightarrow> world \<Rightarrow> ack \<times> world" where
  "on_gui_command e d body_bytes w =
     (case json_loads e body_bytes of
        None \<Rightarrow> (Nack False, w)
      | Some (JObj msg) \<Rightarrow>
          (let command = get msg ''command'';
               params = get_default msg ''params'' (JObj [])
           in case (if command = JStr ''START_SCAN'' then handle_start_scan e d w
                    else if command = JStr ''STOP_SCAN'' then handle_stop_scan e d w
                    else (Inr (), send_command e d [(''command'', command), (''params'', params)] w)) of
                (Inl x, w1) \<Rightarrow> (Nack False, w1)
              | (Inr u, w1) \<Rightarrow>
                  (Ack, publish_gui (drone_id d) ''status''
                          (JObj [(''type'', JStr ''COMMAND_ACK''),
                                 (''timestamp'', JStr (isoformat e (now e))),
                                 (''drone_id'', JStr (drone_id d)),
                                 (''command'', command),
                                 (''status'', JStr ''sent'')]) w1))
      | Some other \<Rightarrow> (Nack False, w))"

section \<open>Example inputs\<close>

text \<open>
  A registered drone D-01 that is hovering, a clock reading, and three message
  bodies: a \<^verbatim>\<open>START_SCAN\<close> command, a \<^verbatim>\<open>STOP_SCAN\<close> command and a video frame in
  which the model finds one fire box with confidence 0.82. Every other body fails to
  parse.
\<close>

definition example_drone :: drone where
  "example_drone =
     \<lparr>drone_id = ''D-01'', name = ''Alpha'', model = ''X1'', gui_token = ''tok-1'',
      telemetry_topic = ''drone.D-01.telemetry'', command_topic = ''drone.D-01.commands'',
      video_topic = ''drone.D-01.video'', alert_topic = ''drone.D-01.alerts'',
      last_status = HOVERING, last_seen = Some 3, is_active = True,
      registered_at = 1, updated_at = 3\<rparr>"

definition example_idle :: world where
  "example_idle =
     \<lparr>drones = [example_drone], sessions = [], logs = [], active_sessions = Map.empty,
      is_loaded = False, published = []\<rparr>"

definition example_env :: env where
  "example_env =
     \<lparr>json_loads =
        (\<lambda>b. if b = ''start'' then Some (JObj [(''command'', JStr ''START_SCAN'')])
              else if b = ''stop'' then Some (JObj [(''command'', JStr ''STOP_SCAN'')])
              else if b = ''frame''
                then Some (JObj [(''data'', JStr ''abc''), (''frame_number'', JInt 12)])
              else None),
      now = 5, isoformat = (\<lambda>t. ''T''), local_isoformat = (\<lambda>t. ''L''), uuid4 = ''S1'',
      to_char = (\<lambda>v. []),
      load_model_ok = True, decode_base64 = (\<lambda>s. Some s),
      yolo = (\<lambda>f. Boxes [\<lparr>box_name = ''fire'', box_conf = 0.82, box_xyxy = [1, 2, 3, 4]\<rparr>]),
      annotate = (\<lambda>f ds. JStr ''annotated''), detector_fault = NoFault\<rparr>"

text \<open>The state after the router has handled \<^verbatim>\<open>START_SCAN\<close> for D-01.\<close>

definition example_scanning :: world where
  "example_scanning = snd (on_gui_command example_env example_drone ''start'' example_idle)"

text \<open>A drone object as \<^verbatim>\<open>Drone.objects.create\<close> builds it, before its first save.\<close>

definition example_new_drone :: drone where
  "example_new_drone =
     \<lparr>drone_id = ''D-02'', name = ''Beta'', model = ''X1'', gui_token = ''tok-2'',
      telemetry_topic = [], command_topic = [], video_topic = [], alert_topic = [],
      last_status = OFFLINE, last_seen = None, is_active = True,
      registered_at = 5, updated_at = 5\<rparr>"

text \<open>A later instant, with the next fresh UUID.\<close>

definition example_later :: env where
  "example_later = example_env\<lparr>now := 9, uuid4 := ''S2''\<rparr>"

text \<open>
  The same surroundings with a database that fails when the detector saves the
  session.
\<close>

definition example_failing :: env where
  "example_failing = example_env\<lparr>detector_fault := SessionSaveFault\<rparr>"

text \<open>
  The state after the router process has been restarted while D-01 is scanning: the
  session is still active in the table, the new dispatcher has no entry.
\<close>

definition example_restarted :: world where
  "example_restarted = example_scanning\<lparr>active_sessions := Map.empty\<rparr>"

section \<open>Evaluation of the examples\<close>

lemmas model_defs =
  get_def get_default_def derived_topics_def topics_def Drone_objects_get_def Drone_save_def
  Drone_objects_create_def ScanSession_save_def filter_active_def first_active_def
  LogEntry_defaults_def LogEntry_objects_create_def DroneService_get_by_id_def
  DroneService_register_def DroneService_update_status_def LogService_create_def
  LogService_log_drone_event_def ScanService_start_def ScanService_stop_def
  ScanService_record_frame_def publish_gui_def manager_publish_def send_command_def
  lower_char_def lower_def fire_names_def smoke_names_def box_detection_def decode_frame_def
  detect_def ScanSession_objects_get_def bbox_json_def detector_log_entry_def
  detector_log_detection_def process_video_frame_def start_detection_def stop_detection_def
  process_frame_def detection_json_def consumer_log_entry_def
  consumer_log_detection_def update_session_stats_def on_video_def on_telemetry_def
  on_alert_def handle_start_scan_def handle_stop_scan_def on_gui_command_def
  example_drone_def example_idle_def example_env_def HOVERING_def SCANNING_def Let_def

lemma example_scanning_eq:
  "example_scanning =
     \<lparr>drones = [example_drone\<lparr>last_status := SCANNING, last_seen := Some 5, updated_at := 5\<rparr>],
      sessions = [\<lparr>session_id = ''S1'', session_drone = ''D-01'', session_is_active = True,
                   started_at = 5, ended_at = None, total_frames_processed = 0,
                   fire_detections = 0, smoke_detections = 0\<rparr>],
      logs = [\<lparr>source = ''Alpha'', message = ScanStartedText ''S1'', log_type = ACTION,
               log_drone = Some ''D-01'', confidence = None, detection_class = [], bbox = JNull,
               frame_path = [], position_x = None, position_y = None, latitude = None,
               longitude = None, timestamp = 5, created_at = 5\<rparr>],
      active_sessions = [''D-01'' \<mapsto> \<lparr>dispatch_session_id = ''S1'', dispatch_is_active = True,
                                      frames_processed = 0\<rparr>],
      is_loaded = False,
      published =
        [\<lparr>exchange = EXCHANGE_GUI, routing_key = ''gui.D-01.status'', delivery_mode = 2,
          body = JObj [(''type'', JStr ''SCAN_STARTED''), (''timestamp'', JStr ''T''),
                       (''drone_id'', JStr ''D-01''), (''session_id'', JStr ''S1'')]\<rparr>,
         \<lparr>exchange = EXCHANGE_COMMANDS, routing_key = ''drone.D-01.commands'', delivery_mode = 2,
          body = JObj [(''timestamp'', JStr ''L''), (''drone_id'', JStr ''D-01''),
                       (''command'', JStr ''START_SCAN''), (''session_id'', JStr ''S1'')]\<rparr>,
         \<lparr>exchange = EXCHANGE_GUI, routing_key = ''gui.D-01.status'', delivery_mode = 2,
          body = JObj [(''type'', JStr ''COMMAND_ACK''), (''timestamp'', JStr ''T''),
                       (''drone_id'', JStr ''D-01''), (''command'', JStr ''START_SCAN''),
                       (''status'', JStr ''sent'')]\<rparr>]\<rparr>"
  unfolding example_scanning_def
  by (simp add: model_defs)

section \<open>The GUI publish helper\<close>

text \<open>
  Claim C3. Every message the router's GUI publish helper issues goes to the GUI
  exchange under the routing key \<open>gui.<droneId>.<messageType>\<close>; its delivery mode is
  1 (transient) exactly when the message type is \<open>video\<close>, and 2 (persistent) for every
  other type.
\<close>

theorem publish_gui_routing_and_durability:
  "\<exists>m. published (publish_gui did message_type payload w) = published w @ [m]
       \<and> exchange m = EXCHANGE_GUI
       \<and> routing_key m = ''gui.'' @ did @ ''.'' @ message_type
       \<and> body m = payload
       \<and> (delivery_mode m = 1) = (message_type = ''video'')
       \<and> (delivery_mode m = 2) = (message_type \<noteq> ''video'')"
  by (simp add: publish_gui_def)

section \<open>Frame counting\<close>

lemma record_frame_plain:
  assumes "pk < length (sessions w)"
  shows "ScanService_record_frame (pk, s) False False w =
           (Inr (pk, s\<lparr>total_frames_processed := total_frames_processed s + 1\<rparr>),
            w\<lparr>sessions := (sessions w)[pk := (sessions w ! pk)
                 \<lparr>total_frames_processed := total_frames_processed s + 1\<rparr>]\<rparr>)"
  using assms by (simp add: ScanService_record_frame_def ScanSession_save_def)

lemma record_frame_times_eq:
  assumes "pk < length (sessions w)"
  shows "record_frame_times n (pk, s) w =
           (Inr (pk, s\<lparr>total_frames_processed := total_frames_processed s + int n\<rparr>),
            w\<lparr>sessions := (sessions w)[pk := (sessions w ! pk)
                 \<lparr>total_frames_processed :=
                    (if n = 0 then total_frames_processed (sessions w ! pk)
                     else total_frames_processed s + int n)\<rparr>]\<rparr>)"
  using assms
proof (induction n arbitrary: s w)
  case 0
  then show ?case by simp
next
  case (Suc n)
  let ?s = "s\<lparr>total_frames_processed := total_frames_processed s + 1\<rparr>"
  let ?w = "w\<lparr>sessions := (sessions w)[pk := (sessions w ! pk)
                 \<lparr>total_frames_processed := total_frames_processed s + 1\<rparr>]\<rparr>"
  have step: "record_frame_times (Suc n) (pk, s) w = record_frame_times n (pk, ?s) ?w"
    using Suc.prems by (simp add: record_frame_plain)
  have len: "pk < length (sessions ?w)"
    using Suc.prems by simp
  show ?case
    unfolding step Suc.IH [OF len]
    using Suc.prems by (simp add: add.assoc)
qed

text \<open>
  Claim C8. For a session object \<open>s\<close> of the row with key \<open>pk\<close>, \<open>n\<close> calls of
  \<^verbatim>\<open>record_frame(session, False, False)\<close> all return, the object's
  \<open>total_frames_processed\<close> has grown by exactly \<open>n\<close>, and its fire and smoke counters
  are what they were; in the table the row keeps its fire and smoke counters and,
  once a call has been made, holds the object's frame count.
\<close>

theorem record_frame_counts_frames_only:
  assumes "pk < length (sessions w)"
  shows "\<exists>s' w'. record_frame_times n (pk, s) w = (Inr (pk, s'), w')
           \<and> total_frames_processed s' = total_frames_processed s + int n
           \<and> fire_detections s' = fire_detections s
           \<and> smoke_detections s' = smoke_detections s
           \<and> length (sessions w') = length (sessions w)
           \<and> fire_detections (sessions w' ! pk) = fire_detections (sessions w ! pk)
           \<and> smoke_detections (sessions w' ! pk) = smoke_detections (sessions w ! pk)
           \<and> total_frames_processed (sessions w' ! pk) =
               (if n = 0 then total_frames_processed (sessions w ! pk)
                else total_frames_processed s + int n)"
  using assms by (simp add: record_frame_times_eq)

theorem record_frame_counts_frames_only_witness:
  "(0::nat) < length (sessions example_scanning)
   \<and> (\<exists>s' w'. record_frame_times 3 (0, sessions example_scanning ! 0) example_scanning = (Inr (0, s'), w')
           \<and> total_frames_processed s' = 3
           \<and> fire_detections s' = 0
           \<and> smoke_detections s' = 0
           \<and> total_frames_processed (sessions w' ! 0) = 3
           \<and> fire_detections (sessions w' ! 0) = 0
           \<and> smoke_detections (sessions w' ! 0) = 0)"
proof -
  have len: "(0::nat) < length (sessions example_scanning)"
    by (simp add: example_scanning_eq)
  have row: "total_frames_processed (sessions example_scanning ! 0) = 0"
      "fire_detections (sessions example_scanning ! 0) = 0"
      "smoke_detections (sessions example_scanning ! 0) = 0"
    by (simp_all add: example_scanning_eq)
  from record_frame_counts_frames_only [OF len, of 3 "sessions example_scanning ! 0"]
  obtain s' w' where
    "record_frame_times 3 (0, sessions example_scanning ! 0) example_scanning = (Inr (0, s'), w')"
    "total_frames_processed s' = total_frames_processed (sessions example_scanning ! 0) + int 3"
    "fire_detections s' = fire_detections (sessions example_scanning ! 0)"
    "smoke_detections s' = smoke_detections (sessions example_scanning ! 0)"
    "fire_detections (sessions w' ! 0) = fire_detections (sessions example_scanning ! 0)"
    "smoke_detections (sessions w' ! 0) = smoke_detections (sessions example_scanning ! 0)"
    "total_frames_processed (sessions w' ! 0) =
       total_frames_processed (sessions example_scanning ! 0) + int 3"
    by auto
  with len row show ?thesis
    by auto
qed

section \<open>Drone records\<close>

lemma Drone_objects_get_drone_id:
  assumes "Drone_objects_get did w = Some d"
  shows "drone_id d = did"
  using assms by (auto simp: Drone_objects_get_def find_Some_iff)

lemma find_drone_map:
  assumes "find (\<lambda>d. drone_id d = did) xs = Some d" and "\<And>r. drone_id (f r) = drone_id r"
  shows "find (\<lambda>d. drone_id d = did) (map f xs) = Some (f d)"
  using assms by (induction xs) (auto split: if_splits)

lemma find_drone_snoc:
  assumes "find (\<lambda>d. drone_id d = did) xs = None" and "drone_id x = did"
  shows "find (\<lambda>d. drone_id d = did) (xs @ [x]) = Some x"
  using assms by (induction xs) (auto split: if_splits)

lemma Drone_save_topics:
  assumes "Drone_save e uf d w = (Inr d', w')"
  shows "topics d' = (if telemetry_topic d = [] then derived_topics (drone_id d) else topics d)"
    and "telemetry_topic d' \<noteq> []"
    and "drone_id d' = drone_id d"
  using assms
  by (auto simp: Drone_save_def Let_def derived_topics_def topics_def
           split: option.splits if_splits)

lemma Drone_save_plain_stored:
  assumes "Drone_save e None d w = (Inr d', w')"
  shows "Drone_objects_get (drone_id d) w' = Some d'"
proof -
  have id: "drone_id d' = drone_id d"
    using assms by (rule Drone_save_topics(3))
  show ?thesis
  proof (cases "Drone_objects_get (drone_id d) w")
    case None
    then have f: "find (\<lambda>x. drone_id x = drone_id d) (drones w) = None"
      by (simp add: Drone_objects_get_def)
    have w': "w' = w\<lparr>drones := drones w @ [d']\<rparr>"
      using assms None
      by (auto simp: Drone_save_def Let_def derived_topics_def split: if_splits)
    show ?thesis
      unfolding w' Drone_objects_get_def using find_drone_snoc [OF f id] by simp
  next
    case (Some row)
    then have f: "find (\<lambda>x. drone_id x = drone_id d) (drones w) = Some row"
      by (simp add: Drone_objects_get_def)
    have row: "drone_id row = drone_id d"
      using Some by (rule Drone_objects_get_drone_id)
    have w': "w' = w\<lparr>drones := map (\<lambda>r. if drone_id r = drone_id d then d' else r) (drones w)\<rparr>"
      using assms Some
      by (auto simp: Drone_save_def Let_def derived_topics_def split: if_splits)
    show ?thesis
      unfolding w' Drone_objects_get_def
      using find_drone_map [OF f, of "\<lambda>r. if drone_id r = drone_id d then d' else r"] id row
      by simp
  qed
qed

lemma Drone_save_plain_returns:
  "\<exists>d' w'. Drone_save e None d w = (Inr d', w')"
  by (simp add: Drone_save_def Let_def split: option.splits prod.splits)

text \<open>
  Claim C9. The four topic names are a function of the drone identifier:
  \<^verbatim>\<open>Drone.save\<close> on a record with no telemetry topic yet sets them to
  \<open>drone.<id>.telemetry\<close>, \<open>drone.<id>.commands\<close>, \<open>drone.<id>.video\<close> and
  \<open>drone.<id>.alerts\<close>, and a plain save stores the record it returns. Saving a record
  whose topics are set leaves the four of them as they are, so a second save never
  changes what the first one left.
\<close>

theorem drone_topics_derived_and_idempotent:
  assumes "Drone_save e uf d w = (Inr d', w')"
      and "Drone_save e2 uf2 d' w2 = (Inr d'', w2')"
  shows "topics d' =
           (if telemetry_topic d = []
            then (''drone.'' @ drone_id d @ ''.telemetry'', ''drone.'' @ drone_id d @ ''.commands'',
                  ''drone.'' @ drone_id d @ ''.video'', ''drone.'' @ drone_id d @ ''.alerts'')
            else topics d)
         \<and> topics d'' = topics d'
         \<and> (uf = None \<longrightarrow> Drone_objects_get (drone_id d) w' = Some d')"
proof (intro conjI impI)
  show "topics d' =
           (if telemetry_topic d = []
            then (''drone.'' @ drone_id d @ ''.telemetry'', ''drone.'' @ drone_id d @ ''.commands'',
                  ''drone.'' @ drone_id d @ ''.video'', ''drone.'' @ drone_id d @ ''.alerts'')
            else topics d)"
    using Drone_save_topics(1) [OF assms(1)] by (simp add: derived_topics_def)
  show "topics d'' = topics d'"
    using Drone_save_topics(1) [OF assms(2)] Drone_save_topics(2) [OF assms(1)] by simp
  assume "uf = None"
  with assms(1) show "Drone_objects_get (drone_id d) w' = Some d'"
    by (simp add: Drone_save_plain_stored)
qed

theorem drone_topics_derived_and_idempotent_witness:
  "\<exists>d' w' d'' w''.
      Drone_save example_env None example_new_drone example_idle = (Inr d', w')
    \<and> Drone_save example_env None d' w' = (Inr d'', w'')
    \<and> topics d' = (''drone.D-02.telemetry'', ''drone.D-02.commands'',
                   ''drone.D-02.video'', ''drone.D-02.alerts'')
    \<and> topics d'' = topics d'
    \<and> Drone_objects_get ''D-02'' w' = Some d'"
proof -
  obtain d' w' where 1: "Drone_save example_env None example_new_drone example_idle = (Inr d', w')"
    using Drone_save_plain_returns by blast
  obtain d'' w'' where 2: "Drone_save example_env None d' w' = (Inr d'', w'')"
    using Drone_save_plain_returns by blast
  from drone_topics_derived_and_idempotent [OF 1 2]
  have "topics d' = (''drone.D-02.telemetry'', ''drone.D-02.commands'',
                    ''drone.D-02.video'', ''drone.D-02.alerts'')"
    and "topics d'' = topics d'"
    and "Drone_objects_get ''D-02'' w' = Some d'"
    by (simp_all add: example_new_drone_def)
  with 1 2 show ?thesis by blast
qed

section \<open>Re-registration\<close>

text \<open>
  Claim C10, as the code has it. Registering an identifier that already has a record
  returns \<open>created = False\<close> and changes, in every record of that identifier,
  \<open>is_active\<close> (to true), \<open>last_seen\<close> (to the clock) and the \<open>updated_at\<close> stamp (to
  the clock); every other column (name, model, GUI token, the four topics, status,
  registration time) and every other record stay as they were, no record is added, and
  nothing else in the state changes. The object handed back carries the record's GUI
  token.
\<close>

theorem register_existing_refreshes_only:
  assumes "Drone_objects_get did w = Some existing"
  shows "\<exists>d'. DroneService_register e did nm mdl w =
           (Inr (d', False),
            w\<lparr>drones := map (\<lambda>r. if drone_id r = did
                                   then r\<lparr>is_active := True, last_seen := Some (now e),
                                          updated_at := now e\<rparr>
                                   else r)
                              (drones w)\<rparr>)
         \<and> gui_token d' = gui_token existing
         \<and> drone_id d' = did"
  using assms Drone_objects_get_drone_id [OF assms]
  by (simp add: DroneService_register_def Drone_save_def Let_def derived_topics_def)

theorem register_existing_refreshes_only_witness:
  "Drone_objects_get ''D-01'' example_idle = Some example_drone
   \<and> (\<exists>d'. DroneService_register example_env ''D-01'' ''Other'' ''X9'' example_idle =
           (Inr (d', False),
            example_idle\<lparr>drones := [example_drone\<lparr>is_active := True, last_seen := Some 5,
                                                  updated_at := 5\<rparr>]\<rparr>)
         \<and> gui_token d' = ''tok-1'')"
proof -
  have g: "Drone_objects_get ''D-01'' example_idle = Some example_drone"
    by (simp add: Drone_objects_get_def example_idle_def example_drone_def)
  from register_existing_refreshes_only [OF g, of example_env "''Other''" "''X9''"]
  obtain d' where
    "DroneService_register example_env ''D-01'' ''Other'' ''X9'' example_idle =
           (Inr (d', False),
            example_idle\<lparr>drones := map (\<lambda>r. if drone_id r = ''D-01''
                                   then r\<lparr>is_active := True, last_seen := Some (now example_env),
                                          updated_at := now example_env\<rparr>
                                   else r)
                              (drones example_idle)\<rparr>)"
    "gui_token d' = gui_token example_drone"
    by blast
  then have
    "DroneService_register example_env ''D-01'' ''Other'' ''X9'' example_idle =
           (Inr (d', False),
            example_idle\<lparr>drones := [example_drone\<lparr>is_active := True, last_seen := Some 5,
                                                  updated_at := 5\<rparr>]\<rparr>)"
    "gui_token d' = ''tok-1''"
    by (simp_all add: example_idle_def example_drone_def example_env_def)
  with g show ?thesis by blast
qed

text \<open>
  The claim as written fails: \<open>updated_at\<close> is neither \<open>is_active\<close> nor
  \<open>last_seen\<close>, and re-registering D-01 at instant 5 moves it from 3 to 5.
\<close>

theorem register_existing_changes_updated_at:
  "Drone_objects_get ''D-01'' example_idle = Some example_drone
   \<and> updated_at example_drone = 3
   \<and> map updated_at
        (drones (snd (DroneService_register example_env ''D-01'' ''Alpha'' ''X1'' example_idle))) = [5]
   \<and> drones (snd (DroneService_register example_env ''D-01'' ''Alpha'' ''X1'' example_idle))
       \<noteq> [example_drone\<lparr>is_active := True, last_seen := Some (now example_env)\<rparr>]"
  by (simp add: model_defs)

section \<open>One active session per drone\<close>

lemma Drone_save_fields_returns:
  assumes "Drone_objects_get (drone_id d) w = Some row"
  shows "\<exists>d'. Drone_save e (Some fs) d w =
           (Inr d', w\<lparr>drones := map (\<lambda>r. if drone_id r = drone_id d
                                             then foldl (\<lambda>r f. write_drone_field d' f r) r fs
                                             else r) (drones w)\<rparr>)
          \<and> drone_id d' = drone_id d \<and> name d' = name d \<and> last_status d' = last_status d"
  using assms
  by (auto simp: Drone_save_def Let_def derived_topics_def split: prod.splits)

lemma write_drone_fields_id:
  "drone_id (foldl (\<lambda>r f. write_drone_field d' f r) r fs) = drone_id r"
proof (induction fs arbitrary: r)
  case Nil
  then show ?case by simp
next
  case (Cons f fs)
  then show ?case by (cases f) simp_all
qed

lemma update_status_returns:
  assumes "Drone_objects_get (drone_id d) w = Some row"
  shows "\<exists>d' w'. DroneService_update_status e d st w = (Inr d', w')
          \<and> sessions w' = sessions w \<and> logs w' = logs w \<and> published w' = published w
          \<and> active_sessions w' = active_sessions w \<and> is_loaded w' = is_loaded w
          \<and> drone_id d' = drone_id d \<and> name d' = name d
          \<and> (\<forall>k r. Drone_objects_get k w = Some r \<longrightarrow>
                (\<exists>r'. Drone_objects_get k w' = Some r'
                   \<and> last_status r' = (if k = drone_id d then st else last_status r)))"
proof -
  let ?d1 = "d\<lparr>last_status := st, last_seen := Some (now e)\<rparr>"
  let ?fs = "[F_last_status, F_last_seen, F_updated_at]"
  have g: "Drone_objects_get (drone_id ?d1) w = Some row"
    using assms by simp
  from Drone_save_fields_returns [OF g, of e ?fs]
  obtain d' where sv: "Drone_save e (Some ?fs) ?d1 w =
           (Inr d', w\<lparr>drones := map (\<lambda>r. if drone_id r = drone_id ?d1
                                             then foldl (\<lambda>r f. write_drone_field d' f r) r ?fs
                                             else r) (drones w)\<rparr>)"
    and id: "drone_id d' = drone_id d" "name d' = name d"
    and st: "last_status d' = st"
    by auto
  define f where "f = (\<lambda>r. if drone_id r = drone_id d
                          then foldl (\<lambda>r f. write_drone_field d' f r) r ?fs else r)"
  have fid: "\<And>r. drone_id (f r) = drone_id r"
    by (simp add: f_def)
  have keep: "\<exists>r'. Drone_objects_get k (w\<lparr>drones := map f (drones w)\<rparr>) = Some r'
                 \<and> last_status r' = (if k = drone_id d then st else last_status r)"
    if "Drone_objects_get k w = Some r" for k r
  proof -
    from that have fk: "find (\<lambda>x. drone_id x = k) (drones w) = Some r"
      by (simp add: Drone_objects_get_def)
    have rk: "drone_id r = k"
      using that by (rule Drone_objects_get_drone_id)
    from find_drone_map [OF fk, of f] fid
    have "Drone_objects_get k (w\<lparr>drones := map f (drones w)\<rparr>) = Some (f r)"
      by (simp add: Drone_objects_get_def)
    moreover have "last_status (f r) = (if k = drone_id d then st else last_status r)"
      using rk st by (simp add: f_def)
    ultimately show ?thesis by blast
  qed
  show ?thesis
    unfolding DroneService_update_status_def
    using sv id keep by (simp add: f_def)
qed

lemma start_returns:
  assumes "Drone_objects_get did w = Some d"
  shows "\<exists>w'. ScanService_start e did w =
            (Inr (length (sessions w),
                  \<lparr>session_id = uuid4 e, session_drone = did, session_is_active = True,
                   started_at = now e, ended_at = None, total_frames_processed = 0,
                   fire_detections = 0, smoke_detections = 0\<rparr>), w')
          \<and> sessions w' =
              map (\<lambda>s. if session_drone s = did \<and> session_is_active s
                        then s\<lparr>session_is_active := False, ended_at := Some (now e)\<rparr> else s)
                  (sessions w)
              @ [\<lparr>session_id = uuid4 e, session_drone = did, session_is_active = True,
                  started_at = now e, ended_at = None, total_frames_processed = 0,
                  fire_detections = 0, smoke_detections = 0\<rparr>]
          \<and> Drone_objects_get did w' \<noteq> None"
proof -
  have did: "drone_id d = did"
    using assms by (rule Drone_objects_get_drone_id)
  define w2 where "w2 = w\<lparr>sessions :=
      map (\<lambda>s. if session_drone s = did \<and> session_is_active s
                then s\<lparr>session_is_active := False, ended_at := Some (now e)\<rparr> else s) (sessions w)
      @ [\<lparr>session_id = uuid4 e, session_drone = did, session_is_active = True,
          started_at = now e, ended_at = None, total_frames_processed = 0,
          fire_detections = 0, smoke_detections = 0\<rparr>]\<rparr>"
  have g: "Drone_objects_get (drone_id d) w2 = Some d"
    using assms did by (simp add: Drone_objects_get_def w2_def)
  from update_status_returns [OF g, of e SCANNING]
  obtain d' w3 where us: "DroneService_update_status e d SCANNING w2 = (Inr d', w3)"
    and same: "sessions w3 = sessions w2"
    and keep: "\<forall>k r. Drone_objects_get k w2 = Some r \<longrightarrow>
                (\<exists>r'. Drone_objects_get k w3 = Some r'
                   \<and> last_status r' = (if k = drone_id d then SCANNING else last_status r))"
    by blast
  from keep g have g3: "Drone_objects_get did w3 \<noteq> None"
    using did by auto
  show ?thesis
    using assms did us same g3
    by (simp add: ScanService_start_def DroneService_get_by_id_def
        LogService_log_drone_event_def LogService_create_def LogEntry_objects_create_def
        Let_def Drone_objects_get_def w2_def)
qed

lemma filter_enumerate_closed:
  "filter (\<lambda>(pk, s). session_drone s = did \<and> session_is_active s)
     (enumerate n (map (\<lambda>s. if session_drone s = did \<and> session_is_active s
                        then s\<lparr>session_is_active := False, ended_at := t\<rparr> else s) xs)) = []"
  by (induction xs arbitrary: n) auto

lemma start_single_active:
  assumes "Drone_objects_get did w = Some d"
  shows "length (filter_active did (snd (ScanService_start e did w))) = 1"
proof -
  from start_returns [OF assms, of e] obtain w' r where
    st: "ScanService_start e did w = (r, w')" and
    ss: "sessions w' =
              map (\<lambda>s. if session_drone s = did \<and> session_is_active s
                        then s\<lparr>session_is_active := False, ended_at := Some (now e)\<rparr> else s)
                  (sessions w)
              @ [\<lparr>session_id = uuid4 e, session_drone = did, session_is_active = True,
                  started_at = now e, ended_at = None, total_frames_processed = 0,
                  fire_detections = 0, smoke_detections = 0\<rparr>]"
    by blast
  show ?thesis
    by (simp add: st filter_active_def ss enumerate_append_eq filter_enumerate_closed)
qed

lemma start_row:
  assumes "Drone_objects_get did w = Some d" and "pk < length (sessions w)"
  shows "pk < length (sessions (snd (ScanService_start e did w))) \<and>
         sessions (snd (ScanService_start e did w)) ! pk =
           (if session_drone (sessions w ! pk) = did \<and> session_is_active (sessions w ! pk)
            then (sessions w ! pk)\<lparr>session_is_active := False, ended_at := Some (now e)\<rparr>
            else sessions w ! pk)"
proof -
  from start_returns [OF assms(1), of e] obtain w' r where
    st: "ScanService_start e did w = (r, w')" and
    ss: "sessions w' =
              map (\<lambda>s. if session_drone s = did \<and> session_is_active s
                        then s\<lparr>session_is_active := False, ended_at := Some (now e)\<rparr> else s)
                  (sessions w)
              @ [\<lparr>session_id = uuid4 e, session_drone = did, session_is_active = True,
                  started_at = now e, ended_at = None, total_frames_processed = 0,
                  fire_detections = 0, smoke_detections = 0\<rparr>]"
    by blast
  show ?thesis
    using assms(2) by (simp add: st ss nth_append)
qed

lemma start_keeps_drone:
  assumes "Drone_objects_get did w \<noteq> None"
  shows "Drone_objects_get did (snd (ScanService_start e did w)) \<noteq> None"
proof -
  from assms obtain d where d: "Drone_objects_get did w = Some d"
    by blast
  from start_returns [OF d, of e] show ?thesis
    by auto
qed

lemma start_each_keeps_drone:
  assumes "Drone_objects_get did w \<noteq> None"
  shows "Drone_objects_get did (start_each did es w) \<noteq> None"
  using assms
proof (induction es arbitrary: w)
  case Nil
  then show ?case by simp
next
  case (Cons e es)
  from Cons.IH [OF start_keeps_drone [OF Cons.prems, of e]] show ?case
    by simp
qed

lemma start_each_append:
  "start_each did (xs @ ys) w = start_each did ys (start_each did xs w)"
  by (induction xs arbitrary: w) simp_all

lemma start_each_closed_stays:
  assumes "Drone_objects_get did w \<noteq> None" and "pk < length (sessions w)"
      and "\<not> session_is_active (sessions w ! pk)"
  shows "pk < length (sessions (start_each did es w)) \<and>
         sessions (start_each did es w) ! pk = sessions w ! pk"
  using assms
proof (induction es arbitrary: w)
  case Nil
  then show ?case by simp
next
  case (Cons e es)
  from Cons.prems(1) obtain d where d: "Drone_objects_get did w = Some d"
    by blast
  note row = start_row [OF d Cons.prems(2), of e]
  have 1: "Drone_objects_get did (snd (ScanService_start e did w)) \<noteq> None"
    using Cons.prems(1) by (rule start_keeps_drone)
  have 2: "pk < length (sessions (snd (ScanService_start e did w)))"
    using row by simp
  have 3: "sessions (snd (ScanService_start e did w)) ! pk = sessions w ! pk"
    using row Cons.prems(3) by simp
  from Cons.IH [OF 1 2] 3 Cons.prems(3) show ?case
    by simp
qed

lemma filter_active_member:
  "(pk, s) \<in> set (filter_active did w) \<longleftrightarrow>
     pk < length (sessions w) \<and> sessions w ! pk = s \<and> session_drone s = did \<and> session_is_active s"
  by (auto simp: filter_active_def in_set_enumerate_eq)

text \<open>
  Claim C2. Take a registered drone and any run of \<^verbatim>\<open>start\<close> calls for it, split
  anywhere into the calls made so far (\<open>pre\<close>) and at least one further call (\<open>es\<close>).
  After the whole run the table holds exactly one active session of the drone, and
  every session of the drone that was active after \<open>pre\<close> is still at its place, with
  \<open>is_active\<close> false and an \<open>ended_at\<close> that is set.
\<close>

theorem start_each_single_active:
  assumes "Drone_objects_get did w \<noteq> None" and "es \<noteq> []"
  shows "length (filter_active did (start_each did (pre @ es) w)) = 1 \<and>
         (\<forall>pk s. (pk, s) \<in> set (filter_active did (start_each did pre w)) \<longrightarrow>
              pk < length (sessions (start_each did (pre @ es) w)) \<and>
              \<not> session_is_active (sessions (start_each did (pre @ es) w) ! pk) \<and>
              ended_at (sessions (start_each did (pre @ es) w) ! pk) \<noteq> None)"
proof (intro conjI allI impI)
  define mid where "mid = start_each did pre w"
  have mid_drone: "Drone_objects_get did mid \<noteq> None"
    unfolding mid_def using assms(1) by (rule start_each_keeps_drone)
  from assms(2) obtain es' e where es: "es = es' @ [e]"
    by (metis rev_exhaust)
  have "start_each did (pre @ es) w = snd (ScanService_start e did (start_each did (pre @ es') w))"
    by (simp add: es start_each_append)
  moreover have "Drone_objects_get did (start_each did (pre @ es') w) \<noteq> None"
    using assms(1) by (rule start_each_keeps_drone)
  ultimately show "length (filter_active did (start_each did (pre @ es) w)) = 1"
    using start_single_active by auto
  fix pk s
  assume "(pk, s) \<in> set (filter_active did (start_each did pre w))"
  then have pk: "pk < length (sessions mid)"
    and act: "session_drone (sessions mid ! pk) = did" "session_is_active (sessions mid ! pk)"
    by (auto simp: filter_active_member mid_def)
  from assms(2) obtain e1 es1 where es1: "es = e1 # es1"
    by (cases es) auto
  from mid_drone obtain d where d: "Drone_objects_get did mid = Some d"
    by blast
  define nxt where "nxt = snd (ScanService_start e1 did mid)"
  note row = start_row [OF d pk, of e1]
  have n1: "Drone_objects_get did nxt \<noteq> None"
    unfolding nxt_def using mid_drone by (rule start_keeps_drone)
  have n2: "pk < length (sessions nxt)"
    using row by (simp add: nxt_def)
  have n3: "\<not> session_is_active (sessions nxt ! pk)" "ended_at (sessions nxt ! pk) \<noteq> None"
    using row act by (simp_all add: nxt_def)
  have fin: "start_each did (pre @ es) w = start_each did es1 nxt"
    by (simp add: es1 start_each_append nxt_def mid_def)
  from start_each_closed_stays [OF n1 n2 n3(1), of es1] n3
  show "pk < length (sessions (start_each did (pre @ es) w))"
    and "\<not> session_is_active (sessions (start_each did (pre @ es) w) ! pk)"
    and "ended_at (sessions (start_each did (pre @ es) w) ! pk) \<noteq> None"
    by (simp_all add: fin)
qed

theorem start_each_single_active_witness:
  "Drone_objects_get ''D-01'' example_idle \<noteq> None
   \<and> [example_later] \<noteq> []
   \<and> (0, sessions example_scanning ! 0) \<in> set (filter_active ''D-01'' (start_each ''D-01'' [example_env] example_idle))
   \<and> length (filter_active ''D-01'' (start_each ''D-01'' ([example_env] @ [example_later]) example_idle)) = 1
   \<and> \<not> session_is_active (sessions (start_each ''D-01'' ([example_env] @ [example_later]) example_idle) ! 0)
   \<and> ended_at (sessions (start_each ''D-01'' ([example_env] @ [example_later]) example_idle) ! 0) \<noteq> None"
proof -
  have g: "Drone_objects_get ''D-01'' example_idle \<noteq> None"
    by (simp add: Drone_objects_get_def example_idle_def example_drone_def)
  have ne: "[example_later] \<noteq> []"
    by simp
  have m: "(0, sessions example_scanning ! 0)
             \<in> set (filter_active ''D-01'' (start_each ''D-01'' [example_env] example_idle))"
    by (simp add: example_scanning_eq) (simp add: model_defs)
  from start_each_single_active [OF g ne, of "[example_env]"] m g
  show ?thesis
    by blast
qed

section \<open>Malformed bodies\<close>

text \<open>
  Claim C5. When \<^verbatim>\<open>json.loads\<close> raises on the body, each of the four handlers answers
  \<^verbatim>\<open>basic_nack(requeue=False)\<close> and leaves the whole state as it was: no log entry,
  no change to a drone or a session, nothing published.
\<close>

theorem malformed_body_discarded:
  assumes "json_loads e b = None"
  shows "on_telemetry e d b w = (Nack False, w)
       \<and> on_video e d b w = (Nack False, w)
       \<and> on_alert e d b w = (Nack False, w)
       \<and> on_gui_command e d b w = (Nack False, w)"
  using assms
  by (simp add: on_telemetry_def on_video_def on_alert_def on_gui_command_def)

theorem malformed_body_discarded_witness:
  "json_loads example_env ''{not json'' = None
   \<and> on_telemetry example_env example_drone ''{not json'' example_scanning = (Nack False, example_scanning)
   \<and> on_video example_env example_drone ''{not json'' example_scanning = (Nack False, example_scanning)
   \<and> on_alert example_env example_drone ''{not json'' example_scanning = (Nack False, example_scanning)
   \<and> on_gui_command example_env example_drone ''{not json'' example_scanning = (Nack False, example_scanning)"
proof -
  have n: "json_loads example_env ''{not json'' = None"
    by (simp add: example_env_def)
  from malformed_body_discarded [OF n, of example_drone example_scanning] n
  show ?thesis
    by simp
qed

section \<open>The video handler\<close>

lemma first_by_started_at_member:
  assumes "first_by_started_at xs = Some x"
  shows "x \<in> set xs"
  using assms
  by (induction xs arbitrary: x) (auto split: option.splits if_splits)

lemma first_active_row:
  assumes "first_active did w = Some (pk, s)"
  shows "pk < length (sessions w)" and "sessions w ! pk = s"
    and "session_drone s = did" and "session_is_active s"
  using first_by_started_at_member [OF assms [unfolded first_active_def]]
  by (simp_all add: filter_active_member)

lemma find_enumerate_bound:
  assumes "find P (enumerate 0 xs) = Some (pk, s)"
  shows "pk < length xs"
proof -
  from assms have "(pk, s) \<in> set (enumerate 0 xs)"
    by (auto simp: find_Some_iff)
  then show ?thesis
    by (simp add: in_set_enumerate_eq)
qed

lemma detector_log_entries_frame:
  assumes "detector_log_entries e d ds k w = (r, w')"
  shows "sessions w' = sessions w \<and> published w' = published w
       \<and> active_sessions w' = active_sessions w \<and> drones w' = drones w"
  using assms
proof (induction ds arbitrary: k w)
  case Nil
  then show ?case by auto
next
  case (Cons det ds)
  show ?case
  proof (cases "det_class det \<in> set [''fire'', ''smoke'']")
    case False
    with Cons.prems have "detector_log_entries e d ds k w = (r, w')"
      by simp
    then show ?thesis
      by (rule Cons.IH)
  next
    case True
    show ?thesis
    proof (cases "detector_fault e = LogInsertFault k")
      case True
      with \<open>det_class det \<in> set [''fire'', ''smoke'']\<close> Cons.prems show ?thesis
        by auto
    next
      case False
      define w1 where "w1 = snd (LogEntry_objects_create (detector_log_entry e d det) w)"
      have fr: "sessions w1 = sessions w" "published w1 = published w"
          "active_sessions w1 = active_sessions w" "drones w1 = drones w"
        by (simp_all add: w1_def LogEntry_objects_create_def)
      from Cons.prems False \<open>det_class det \<in> set [''fire'', ''smoke'']\<close>
      have "detector_log_entries e d ds (Suc k) w1 = (r, w')"
        by (simp add: w1_def)
      from Cons.IH [OF this] fr show ?thesis
        by simp
    qed
  qed
qed

text \<open>
  Whatever the detector's logging does, it publishes nothing and leaves the
  dispatcher alone; when it raises, the session table is as it was.
\<close>

lemma detector_log_detection_frame:
  assumes "detector_log_detection e did result sid w = (r, w')"
  shows "length (sessions w') = length (sessions w) \<and> published w' = published w
       \<and> active_sessions w' = active_sessions w
       \<and> (\<forall>x. r = Inl x \<longrightarrow> sessions w' = sessions w)"
proof (cases "detector_fault e = DroneGetFault \<or> Drone_objects_get did w = None")
  case True
  with assms show ?thesis
    by (auto simp: detector_log_detection_def split: if_splits)
next
  case False
  then obtain d where d: "Drone_objects_get did w = Some d" and nf: "detector_fault e \<noteq> DroneGetFault"
    by auto
  obtain r1 w1 where en: "detector_log_entries e d (result_detections result) 0 w = (r1, w1)"
    by (cases "detector_log_entries e d (result_detections result) 0 w")
  note fr = detector_log_entries_frame [OF en]
  show ?thesis
  proof (cases r1)
    case (Inl x)
    with assms d nf en fr show ?thesis
      by (auto simp: detector_log_detection_def split: if_splits)
  next
    case (Inr u)
    show ?thesis
    proof (cases "sid = [] \<or> detector_fault e = SessionGetFault
                   \<or> ScanSession_objects_get sid w1 = None")
      case True
      with assms d nf en Inr fr show ?thesis
        by (auto simp: detector_log_detection_def split: if_splits)
    next
      case False
      then obtain pk session0 where g: "ScanSession_objects_get sid w1 = Some (pk, session0)"
        and sid: "sid \<noteq> []" and ng: "detector_fault e \<noteq> SessionGetFault"
        by auto
      from g have pk: "pk < length (sessions w1)"
        unfolding ScanSession_objects_get_def by (rule find_enumerate_bound)
      show ?thesis
      proof (cases "detector_fault e = SessionSaveFault")
        case True
        with assms d nf en Inr g sid ng fr show ?thesis
          by (auto simp: detector_log_detection_def Let_def split: if_splits)
      next
        case False
        with assms d nf en Inr g sid ng fr pk show ?thesis
          by (auto simp: detector_log_detection_def Let_def ScanSession_save_def split: if_splits)
      qed
    qed
  qed
qed

lemma detect_frame:
  "sessions (snd (detect e fd w)) = sessions w
   \<and> published (snd (detect e fd w)) = published w
   \<and> active_sessions (snd (detect e fd w)) = active_sessions w"
  by (simp add: detect_def Let_def split: option.splits yolo_outcome.splits)

lemma process_video_frame_frame:
  assumes "process_video_frame e did fd sid w = (r, w')"
  shows "length (sessions w') = length (sessions w) \<and> published w' = published w
       \<and> active_sessions w' = active_sessions w
       \<and> (\<forall>x. r = Inl x \<longrightarrow> sessions w' = sessions w)"
proof -
  obtain result w1 where dt: "detect e fd w = (result, w1)"
    by (cases "detect e fd w")
  with detect_frame [of e fd w]
  have fr: "sessions w1 = sessions w" "published w1 = published w"
      "active_sessions w1 = active_sessions w"
    by simp_all
  show ?thesis
  proof (cases "result_has_fire result \<or> result_has_smoke result")
    case False
    with assms dt fr show ?thesis
      by (auto simp: process_video_frame_def)
  next
    case True
    obtain r2 w2 where lg: "detector_log_detection e did result sid w1 = (r2, w2)"
      by (cases "detector_log_detection e did result sid w1")
    note f2 = detector_log_detection_frame [OF lg]
    from assms dt True lg f2 fr show ?thesis
      by (cases r2) (auto simp: process_video_frame_def)
  qed
qed

text \<open>
  The dispatcher: it publishes nothing and keeps the number of sessions; when the
  pipeline raises, the sessions and the dispatcher's own entries are as they were; and
  it returns \<^verbatim>\<open>None\<close> only when it has done nothing.
\<close>

lemma process_frame_frame:
  assumes "process_frame e did fd w = (r, w')"
  shows "length (sessions w') = length (sessions w) \<and> published w' = published w
       \<and> (\<forall>x. r = Inl x \<longrightarrow> sessions w' = sessions w \<and> active_sessions w' = active_sessions w)
       \<and> (r = Inr None \<longrightarrow> w' = w)"
proof (cases "active_sessions w did")
  case None
  with assms show ?thesis
    by (auto simp: process_frame_def)
next
  case (Some entry)
  show ?thesis
  proof (cases "dispatch_is_active entry")
    case False
    with assms Some show ?thesis
      by (auto simp: process_frame_def)
  next
    case True
    obtain r1 w1 where pv: "process_video_frame e did fd (dispatch_session_id entry) w = (r1, w1)"
      by (cases "process_video_frame e did fd (dispatch_session_id entry) w")
    note f1 = process_video_frame_frame [OF pv]
    from assms Some True pv f1 show ?thesis
      by (cases r1) (auto simp: process_frame_def)
  qed
qed

lemma consumer_log_detection_frame:
  "sessions (consumer_log_detection e d result w) = sessions w
   \<and> (\<exists>rest. published (consumer_log_detection e d result w) = published w @ rest
         \<and> list_all (\<lambda>x. routing_key x = ''gui.'' @ drone_id d @ ''.alerts'') rest)"
  unfolding consumer_log_detection_def
proof (induction "result_detections result" arbitrary: w result)
  case Nil
  then show ?case
    by (simp del: result_detections.simps add: Nil [symmetric])
next
  case (Cons det ds)
  define step where "step = (\<lambda>w det.
              if det_class det \<in> set [''fire'', ''smoke'']
              then (case LogEntry_objects_create (consumer_log_entry e d det) w of
                      (entry_id, w1) \<Rightarrow>
                        publish_gui (drone_id d) ''alerts''
                          (JObj [(''type'', JStr ''DETECTION_ALERT''),
                                 (''timestamp'', JStr (isoformat e (now e))),
                                 (''drone_id'', JStr (drone_id d)),
                                 (''detection_class'', JStr (det_class det)),
                                 (''confidence'', JFloat (det_confidence det)),
                                 (''bbox'', bbox_json (det_bbox det)),
                                 (''log_id'', JInt (int entry_id))]) w1)
              else w)"
  have one: "sessions (step w det) = sessions w
      \<and> (\<exists>r1. published (step w det) = published w @ r1
            \<and> list_all (\<lambda>x. routing_key x = ''gui.'' @ drone_id d @ ''.alerts'') r1)"
    by (simp add: step_def LogEntry_objects_create_def publish_gui_def)
  have ds: "ds = result_detections (DetOk ds JNull False False)"
    by simp
  from Cons.hyps(1) [OF ds, of "step w det"]
  have rest: "sessions (foldl step (step w det) ds) = sessions (step w det)
      \<and> (\<exists>r2. published (foldl step (step w det) ds) = published (step w det) @ r2
            \<and> list_all (\<lambda>x. routing_key x = ''gui.'' @ drone_id d @ ''.alerts'') r2)"
    by (simp add: step_def)
  from one rest show ?case
    unfolding Cons.hyps(2) [symmetric] step_def [symmetric]
    by auto
qed

lemma update_session_stats_returns:
  assumes "pk < length (sessions w)"
  shows "\<exists>w'. update_session_stats (pk, s) result w = (Inr (), w')
          \<and> published w' = published w \<and> logs w' = logs w \<and> drones w' = drones w
          \<and> active_sessions w' = active_sessions w \<and> is_loaded w' = is_loaded w
          \<and> sessions w' = (sessions w)[pk := (sessions w ! pk)
               \<lparr>total_frames_processed := total_frames_processed s + 1,
                fire_detections := (if result_has_fire result then fire_detections s + 1
                                    else fire_detections (sessions w ! pk)),
                smoke_detections := (if result_has_smoke result then smoke_detections s + 1
                                     else smoke_detections (sessions w ! pk))\<rparr>]"
  using assms
  by (simp add: update_session_stats_def ScanSession_save_def Let_def)

lemma alerts_are_not_video:
  assumes "list_all (\<lambda>x. routing_key x = ''gui.'' @ did @ ''.alerts'') rest"
  shows "list_all (\<lambda>x. routing_key x \<noteq> ''gui.'' @ did @ ''.video'') rest"
  using assms by (induction rest) auto

text \<open>
  Claim C4. Take a video message whose \<^verbatim>\<open>data\<close> is not empty. With no active session
  of the drone the handler acknowledges and publishes exactly one message: the raw
  frame on \<open>gui.<id>.video\<close>, transient, its body carrying \<open>scanning\<close> false. With an
  active session, when the dispatcher returns nothing the handler acknowledges and
  publishes exactly one message, the raw frame on \<open>gui.<id>.video\<close> with \<open>scanning\<close>
  true; when the dispatcher returns a result the handler acknowledges, the first
  message it publishes is the result's frame on \<open>gui.<id>.video\<close> with \<open>scanning\<close>
  true, and nothing else it publishes goes to the video topic.
\<close>

theorem video_frame_scanning_flag:
  assumes "json_loads e b = Some (JObj msg)" and "truthy (get msg ''data'')"
  shows "(first_active (drone_id d) w = None \<longrightarrow>
            on_video e d b w =
              (Ack, w\<lparr>published := published w @
                 [\<lparr>exchange = EXCHANGE_GUI, routing_key = ''gui.'' @ drone_id d @ ''.video'',
                   delivery_mode = 1,
                   body = JObj [(''type'', JStr ''VIDEO_FRAME''),
                                (''timestamp'',
                                   get_default msg ''timestamp'' (JStr (isoformat e (now e)))),
                                (''drone_id'', JStr (drone_id d)),
                                (''frame_number'', get_default msg ''frame_number'' (JInt 0)),
                                (''data'', get msg ''data''),
                                (''scanning'', JBool False)]\<rparr>]\<rparr>))
       \<and> (first_active (drone_id d) w \<noteq> None
            \<and> process_frame e (drone_id d) (get msg ''data'') w = (Inr None, w1) \<longrightarrow>
            on_video e d b w =
              (Ack, w\<lparr>published := published w @
                 [\<lparr>exchange = EXCHANGE_GUI, routing_key = ''gui.'' @ drone_id d @ ''.video'',
                   delivery_mode = 1,
                   body = JObj [(''type'', JStr ''VIDEO_FRAME''),
                                (''timestamp'',
                                   get_default msg ''timestamp'' (JStr (isoformat e (now e)))),
                                (''drone_id'', JStr (drone_id d)),
                                (''frame_number'', get_default msg ''frame_number'' (JInt 0)),
                                (''data'', get msg ''data''),
                                (''scanning'', JBool True)]\<rparr>]\<rparr>))
       \<and> (first_active (drone_id d) w \<noteq> None
            \<and> process_frame e (drone_id d) (get msg ''data'') w = (Inr (Some result), w2) \<longrightarrow>
            (\<exists>w' rest.
                on_video e d b w = (Ack, w')
              \<and> published w' = published w @
                   \<lparr>exchange = EXCHANGE_GUI, routing_key = ''gui.'' @ drone_id d @ ''.video'',
                    delivery_mode = 1,
                    body = JObj [(''type'', JStr ''VIDEO_FRAME''),
                                 (''timestamp'',
                                    get_default msg ''timestamp'' (JStr (isoformat e (now e)))),
                                 (''drone_id'', JStr (drone_id d)),
                                 (''frame_number'', get_default msg ''frame_number'' (JInt 0)),
                                 (''data'', result_annotated_frame result (get msg ''data'')),
                                 (''scanning'', JBool True)]\<rparr> # rest
              \<and> list_all (\<lambda>x. routing_key x \<noteq> ''gui.'' @ drone_id d @ ''.video'') rest))"
proof (intro conjI impI)
  assume "first_active (drone_id d) w = None"
  with assms show "on_video e d b w =
              (Ack, w\<lparr>published := published w @
                 [\<lparr>exchange = EXCHANGE_GUI, routing_key = ''gui.'' @ drone_id d @ ''.video'',
                   delivery_mode = 1,
                   body = JObj [(''type'', JStr ''VIDEO_FRAME''),
                                (''timestamp'',
                                   get_default msg ''timestamp'' (JStr (isoformat e (now e)))),
                                (''drone_id'', JStr (drone_id d)),
                                (''frame_number'', get_default msg ''frame_number'' (JInt 0)),
                                (''data'', get msg ''data''),
                                (''scanning'', JBool False)]\<rparr>]\<rparr>)"
    by (simp add: on_video_def publish_gui_def Let_def)
next
  assume a: "first_active (drone_id d) w \<noteq> None
            \<and> process_frame e (drone_id d) (get msg ''data'') w = (Inr None, w1)"
  then obtain pk s where fa: "first_active (drone_id d) w = Some (pk, s)"
    by auto
  from a have pf: "process_frame e (drone_id d) (get msg ''data'') w = (Inr None, w1)"
    by simp
  from process_frame_frame [OF pf] have w1: "w1 = w"
    by simp
  show "on_video e d b w =
              (Ack, w\<lparr>published := published w @
                 [\<lparr>exchange = EXCHANGE_GUI, routing_key = ''gui.'' @ drone_id d @ ''.video'',
                   delivery_mode = 1,
                   body = JObj [(''type'', JStr ''VIDEO_FRAME''),
                                (''timestamp'',
                                   get_default msg ''timestamp'' (JStr (isoformat e (now e)))),
                                (''drone_id'', JStr (drone_id d)),
                                (''frame_number'', get_default msg ''frame_number'' (JInt 0)),
                                (''data'', get msg ''data''),
                                (''scanning'', JBool True)]\<rparr>]\<rparr>)"
    using assms fa pf w1
    by (simp add: on_video_def publish_gui_def Let_def)
next
  define ts where "ts = get_default msg ''timestamp'' (JStr (isoformat e (now e)))"
  define fn where "fn = get_default msg ''frame_number'' (JInt 0)"
  define fd where "fd = get msg ''data''"
  define vkey where "vkey = ''gui.'' @ drone_id d @ ''.video''"
  assume a: "first_active (drone_id d) w \<noteq> None
            \<and> process_frame e (drone_id d) (get msg ''data'') w = (Inr (Some result), w2)"
  then obtain pk s where fa: "first_active (drone_id d) w = Some (pk, s)"
    by auto
  then have pk: "pk < length (sessions w)"
    by (rule first_active_row(1))
  from a have pf: "process_frame e (drone_id d) fd w = (Inr (Some result), w2)"
    by (simp add: fd_def)
  from process_frame_frame [OF pf]
  have len1: "length (sessions w2) = length (sessions w)"
    and pub1: "published w2 = published w"
    by simp_all
  define vmsg where "vmsg =
     \<lparr>exchange = EXCHANGE_GUI, routing_key = vkey, delivery_mode = 1,
      body = JObj [(''type'', JStr ''VIDEO_FRAME''), (''timestamp'', ts),
                   (''drone_id'', JStr (drone_id d)), (''frame_number'', fn),
                   (''data'', result_annotated_frame result fd),
                   (''scanning'', JBool True)]\<rparr>"
  define w3 where "w3 = publish_gui (drone_id d) ''video''
        (JObj [(''type'', JStr ''VIDEO_FRAME''), (''timestamp'', ts),
               (''drone_id'', JStr (drone_id d)), (''frame_number'', fn),
               (''data'', result_annotated_frame result fd),
               (''scanning'', JBool True)]) w2"
  define w4 where "w4 = (if result_detections result \<noteq> []
                           then publish_gui (drone_id d) ''detection''
                                  (JObj [(''type'', JStr ''DETECTION''),
                                         (''timestamp'', ts),
                                         (''drone_id'', JStr (drone_id d)),
                                         (''frame_number'', fn),
                                         (''detections'',
                                            JArr (map detection_json (result_detections result))),
                                         (''has_fire'', JBool (result_has_fire result)),
                                         (''has_smoke'', JBool (result_has_smoke result))]) w3
                           else w3)"
  define w5 where "w5 = (if result_has_fire result \<or> result_has_smoke result
                           then consumer_log_detection e d result w4 else w4)"
  have ov: "on_video e d b w =
        (case update_session_stats (pk, s) result w5 of
           (Inl x, w6) \<Rightarrow> (Nack False, w6)
         | (Inr u, w6) \<Rightarrow> (Ack, w6))"
    using assms fa pf
    by (simp add: on_video_def Let_def ts_def fn_def fd_def w3_def w4_def w5_def)
  have p3: "published w3 = published w @ [vmsg]"
    and s3: "sessions w3 = sessions w2"
    using pub1 by (simp_all add: w3_def publish_gui_def vkey_def vmsg_def)
  have p4: "\<exists>r4. published w4 = published w3 @ r4
                 \<and> list_all (\<lambda>x. routing_key x \<noteq> vkey) r4"
    and s4: "sessions w4 = sessions w3"
    by (simp_all add: w4_def publish_gui_def vkey_def)
  from consumer_log_detection_frame [of e d result w4]
  have p5: "\<exists>r5. published w5 = published w4 @ r5
                 \<and> list_all (\<lambda>x. routing_key x \<noteq> vkey) r5"
    and s5: "sessions w5 = sessions w4"
    using alerts_are_not_video [of "drone_id d"]
    by (auto simp: w5_def vkey_def)
  have "pk < length (sessions w5)"
    using pk len1 s3 s4 s5 by simp
  from update_session_stats_returns [OF this, of s result]
  obtain w6 where us: "update_session_stats (pk, s) result w5 = (Inr (), w6)"
    and p6: "published w6 = published w5"
    by blast
  from p4 obtain r4 where r4: "published w4 = published w3 @ r4"
      "list_all (\<lambda>x. routing_key x \<noteq> vkey) r4"
    by blast
  from p5 obtain r5 where r5: "published w5 = published w4 @ r5"
      "list_all (\<lambda>x. routing_key x \<noteq> vkey) r5"
    by blast
  have "on_video e d b w = (Ack, w6)"
    using ov us by simp
  moreover have "published w6 = published w @ vmsg # (r4 @ r5)"
    using p6 r5(1) r4(1) p3 by simp
  moreover have "list_all (\<lambda>x. routing_key x \<noteq> vkey) (r4 @ r5)"
    using r4(2) r5(2) by simp
  ultimately show "\<exists>w' rest.
                on_video e d b w = (Ack, w')
              \<and> published w' = published w @
                   \<lparr>exchange = EXCHANGE_GUI, routing_key = ''gui.'' @ drone_id d @ ''.video'',
                    delivery_mode = 1,
                    body = JObj [(''type'', JStr ''VIDEO_FRAME''),
                                 (''timestamp'',
                                    get_default msg ''timestamp'' (JStr (isoformat e (now e)))),
                                 (''drone_id'', JStr (drone_id d)),
                                 (''frame_number'', get_default msg ''frame_number'' (JInt 0)),
                                 (''data'', result_annotated_frame result (get msg ''data'')),
                                 (''scanning'', JBool True)]\<rparr> # rest
              \<and> list_all (\<lambda>x. routing_key x \<noteq> ''gui.'' @ drone_id d @ ''.video'') rest"
    unfolding vmsg_def vkey_def ts_def fn_def fd_def by blast
qed

theorem video_frame_scanning_flag_witness:
  "json_loads example_env ''frame'' = Some (JObj [(''data'', JStr ''abc''), (''frame_number'', JInt 12)])
   \<and> truthy (get [(''data'', JStr ''abc''), (''frame_number'', JInt 12)] ''data'')
   \<and> first_active ''D-01'' example_idle = None
   \<and> on_video example_env example_drone ''frame'' example_idle =
        (Ack, example_idle\<lparr>published :=
           [\<lparr>exchange = EXCHANGE_GUI, routing_key = ''gui.D-01.video'', delivery_mode = 1,
             body = JObj [(''type'', JStr ''VIDEO_FRAME''), (''timestamp'', JStr ''T''),
                          (''drone_id'', JStr ''D-01''), (''frame_number'', JInt 12),
                          (''data'', JStr ''abc''), (''scanning'', JBool False)]\<rparr>]\<rparr>)
   \<and> first_active ''D-01'' example_restarted \<noteq> None
   \<and> process_frame example_env ''D-01'' (JStr ''abc'') example_restarted = (Inr None, example_restarted)
   \<and> on_video example_env example_drone ''frame'' example_restarted =
        (Ack, example_restarted\<lparr>published := published example_restarted @
           [\<lparr>exchange = EXCHANGE_GUI, routing_key = ''gui.D-01.video'', delivery_mode = 1,
             body = JObj [(''type'', JStr ''VIDEO_FRAME''), (''timestamp'', JStr ''T''),
                          (''drone_id'', JStr ''D-01''), (''frame_number'', JInt 12),
                          (''data'', JStr ''abc''), (''scanning'', JBool True)]\<rparr>]\<rparr>)
   \<and> first_active ''D-01'' example_scanning \<noteq> None
   \<and> (\<exists>result w2 w' rest.
          process_frame example_env ''D-01'' (JStr ''abc'') example_scanning = (Inr (Some result), w2)
        \<and> on_video example_env example_drone ''frame'' example_scanning = (Ack, w')
        \<and> published w' = published example_scanning @
             \<lparr>exchange = EXCHANGE_GUI, routing_key = ''gui.D-01.video'', delivery_mode = 1,
              body = JObj [(''type'', JStr ''VIDEO_FRAME''), (''timestamp'', JStr ''T''),
                           (''drone_id'', JStr ''D-01''), (''frame_number'', JInt 12),
                           (''data'', JStr ''annotated''), (''scanning'', JBool True)]\<rparr> # rest
        \<and> list_all (\<lambda>x. routing_key x \<noteq> ''gui.D-01.video'') rest)"
proof -
  let ?msg = "[(''data'', JStr ''abc''), (''frame_number'', JInt 12)]"
  have h1: "json_loads example_env ''frame'' = Some (JObj ?msg)"
    by (simp add: example_env_def)
  have h2: "truthy (get ?msg ''data'')"
    by (simp add: get_def)
  have idle: "first_active ''D-01'' example_idle = None"
    by (simp add: first_active_def filter_active_def example_idle_def)
  have restarted: "first_active ''D-01'' example_restarted \<noteq> None"
    by (simp add: example_restarted_def example_scanning_eq)
       (simp add: first_active_def filter_active_def)
  have scanning: "first_active ''D-01'' example_scanning \<noteq> None"
    by (simp add: example_scanning_eq) (simp add: first_active_def filter_active_def)
  have pf_none: "process_frame example_env ''D-01'' (JStr ''abc'') example_restarted
                   = (Inr None, example_restarted)"
    by (simp add: process_frame_def example_restarted_def)
  obtain r0 w2 where pf0: "process_frame example_env ''D-01'' (JStr ''abc'') example_scanning = (r0, w2)"
    by (cases "process_frame example_env ''D-01'' (JStr ''abc'') example_scanning")
  have "\<exists>result. fst (process_frame example_env ''D-01'' (JStr ''abc'') example_scanning)
                    = Inr (Some result)
                  \<and> result_annotated_frame result (JStr ''abc'') = JStr ''annotated''"
    by (simp add: example_scanning_eq) (simp add: model_defs)
  then obtain result where pf_some:
      "process_frame example_env ''D-01'' (JStr ''abc'') example_scanning = (Inr (Some result), w2)"
    and ann: "result_annotated_frame result (JStr ''abc'') = JStr ''annotated''"
    using pf0 by auto
  have vals: "drone_id example_drone = ''D-01''"
      "get_default ?msg ''timestamp'' (JStr (isoformat example_env (now example_env))) = JStr ''T''"
      "get_default ?msg ''frame_number'' (JInt 0) = JInt 12"
      "get ?msg ''data'' = JStr ''abc''"
      "published example_idle = []"
    by (simp_all add: example_drone_def example_env_def example_idle_def get_def get_default_def)
  from video_frame_scanning_flag [OF h1 h2, where d = example_drone and w = example_idle] idle
  have a: "on_video example_env example_drone ''frame'' example_idle =
        (Ack, example_idle\<lparr>published :=
           [\<lparr>exchange = EXCHANGE_GUI, routing_key = ''gui.D-01.video'', delivery_mode = 1,
             body = JObj [(''type'', JStr ''VIDEO_FRAME''), (''timestamp'', JStr ''T''),
                          (''drone_id'', JStr ''D-01''), (''frame_number'', JInt 12),
                          (''data'', JStr ''abc''), (''scanning'', JBool False)]\<rparr>]\<rparr>)"
    by (simp add: vals)
  from video_frame_scanning_flag [OF h1 h2, where d = example_drone and w = example_restarted
      and ?w1.0 = example_restarted] restarted pf_none
  have b: "on_video example_env example_drone ''frame'' example_restarted =
        (Ack, example_restarted\<lparr>published := published example_restarted @
           [\<lparr>exchange = EXCHANGE_GUI, routing_key = ''gui.D-01.video'', delivery_mode = 1,
             body = JObj [(''type'', JStr ''VIDEO_FRAME''), (''timestamp'', JStr ''T''),
                          (''drone_id'', JStr ''D-01''), (''frame_number'', JInt 12),
                          (''data'', JStr ''abc''), (''scanning'', JBool True)]\<rparr>]\<rparr>)"
    by (simp add: vals)
  from video_frame_scanning_flag [OF h1 h2, where d = example_drone and w = example_scanning
      and result = result and ?w2.0 = w2] scanning pf_some ann
  have c: "\<exists>w' rest.
          on_video example_env example_drone ''frame'' example_scanning = (Ack, w')
        \<and> published w' = published example_scanning @
             \<lparr>exchange = EXCHANGE_GUI, routing_key = ''gui.D-01.video'', delivery_mode = 1,
              body = JObj [(''type'', JStr ''VIDEO_FRAME''), (''timestamp'', JStr ''T''),
                           (''drone_id'', JStr ''D-01''), (''frame_number'', JInt 12),
                           (''data'', JStr ''annotated''), (''scanning'', JBool True)]\<rparr> # rest
        \<and> list_all (\<lambda>x. routing_key x \<noteq> ''gui.D-01.video'') rest"
    by (simp add: vals)
  from c pf_some have c': "\<exists>result w2 w' rest.
          process_frame example_env ''D-01'' (JStr ''abc'') example_scanning = (Inr (Some result), w2)
        \<and> on_video example_env example_drone ''frame'' example_scanning = (Ack, w')
        \<and> published w' = published example_scanning @
             \<lparr>exchange = EXCHANGE_GUI, routing_key = ''gui.D-01.video'', delivery_mode = 1,
              body = JObj [(''type'', JStr ''VIDEO_FRAME''), (''timestamp'', JStr ''T''),
                           (''drone_id'', JStr ''D-01''), (''frame_number'', JInt 12),
                           (''data'', JStr ''annotated''), (''scanning'', JBool True)]\<rparr> # rest
        \<and> list_all (\<lambda>x. routing_key x \<noteq> ''gui.D-01.video'') rest"
    by blast
  show ?thesis
    using h1 h2 idle a restarted pf_none b scanning c'
    by (intro conjI) assumption+
qed

section \<open>A detection pipeline that raises\<close>

text \<open>
  What the guarded inference block of \<^verbatim>\<open>detect\<close> raises never leaves the pipeline:
  the dispatcher hands the router an error result. That is a frame the pipeline
  processed, not a call that raised.
\<close>

lemma guarded_inference_error_is_a_result:
  assumes "active_sessions w did = Some entry" and "dispatch_is_active entry"
      and "is_loaded w \<or> load_model_ok e"
      and "decode_frame e fd = Some f" and "yolo e f = Raised err"
  shows "process_frame e did fd w =
           (Inr (Some (DetError err)),
            w\<lparr>is_loaded := True,
              active_sessions := (active_sessions w)(did \<mapsto>
                 entry\<lparr>frames_processed := frames_processed entry + 1\<rparr>)\<rparr>)"
  using assms
  by (auto simp: process_frame_def process_video_frame_def detect_def Let_def)

text \<open>
  Claim C6. When the dispatcher's call into the detection pipeline raises while a
  frame is processed for a drone with an active session, the handler returns (the
  router goes on), answering \<^verbatim>\<open>basic_nack(requeue=False)\<close>: the frame is dropped. The
  router has no result and publishes nothing for the frame, and the session table is
  what it was before the frame, so every session's \<open>total_frames_processed\<close>,
  \<open>fire_detections\<close> and \<open>smoke_detections\<close> are unchanged; the dispatcher's own
  entries are unchanged too.
\<close>

theorem pipeline_exception_drops_frame:
  assumes "json_loads e b = Some (JObj msg)" and "truthy (get msg ''data'')"
      and "first_active (drone_id d) w = Some (pk, s)"
      and "process_frame e (drone_id d) (get msg ''data'') w = (Inl x, w1)"
  shows "on_video e d b w = (Nack False, w1)
       \<and> published w1 = published w
       \<and> sessions w1 = sessions w
       \<and> active_sessions w1 = active_sessions w"
proof -
  have "on_video e d b w = (Nack False, w1)"
    using assms by (simp add: on_video_def Let_def)
  with process_frame_frame [OF assms(4)] show ?thesis
    by simp
qed

theorem pipeline_exception_drops_frame_witness:
  "json_loads example_failing ''frame'' =
     Some (JObj [(''data'', JStr ''abc''), (''frame_number'', JInt 12)])
   \<and> truthy (get [(''data'', JStr ''abc''), (''frame_number'', JInt 12)] ''data'')
   \<and> first_active (drone_id example_drone) example_scanning = Some (0, sessions example_scanning ! 0)
   \<and> fst (process_frame example_failing (drone_id example_drone) (JStr ''abc'') example_scanning)
        = Inl OperationalError
   \<and> fst (on_video example_failing example_drone ''frame'' example_scanning) = Nack False
   \<and> published (snd (on_video example_failing example_drone ''frame'' example_scanning))
        = published example_scanning
   \<and> sessions (snd (on_video example_failing example_drone ''frame'' example_scanning))
        = sessions example_scanning
   \<and> active_sessions (snd (on_video example_failing example_drone ''frame'' example_scanning))
        = active_sessions example_scanning"
proof -
  let ?msg = "[(''data'', JStr ''abc''), (''frame_number'', JInt 12)]"
  have h1: "json_loads example_failing ''frame'' = Some (JObj ?msg)"
    by (simp add: example_failing_def example_env_def)
  have h2: "truthy (get ?msg ''data'')"
    by (simp add: get_def)
  have h3: "first_active (drone_id example_drone) example_scanning
              = Some (0, sessions example_scanning ! 0)"
    by (simp add: example_scanning_eq)
       (simp add: first_active_def filter_active_def example_drone_def)
  have fd: "get ?msg ''data'' = JStr ''abc''"
    by (simp add: get_def)
  have raised: "fst (process_frame example_failing (drone_id example_drone) (JStr ''abc'')
                       example_scanning) = Inl OperationalError"
    by (simp add: example_scanning_eq) (simp add: model_defs example_failing_def)
  then obtain w1 where h4: "process_frame example_failing (drone_id example_drone)
                              (get ?msg ''data'') example_scanning = (Inl OperationalError, w1)"
    unfolding fd
    by (cases "process_frame example_failing (drone_id example_drone) (JStr ''abc'') example_scanning")
       simp
  from pipeline_exception_drops_frame [OF h1 h2 h3 h4]
  have "fst (on_video example_failing example_drone ''frame'' example_scanning) = Nack False"
    and "published (snd (on_video example_failing example_drone ''frame'' example_scanning))
        = published example_scanning"
    and "sessions (snd (on_video example_failing example_drone ''frame'' example_scanning))
        = sessions example_scanning"
    and "active_sessions (snd (on_video example_failing example_drone ''frame'' example_scanning))
        = active_sessions example_scanning"
    by simp_all
  with h1 h2 h3 raised show ?thesis
    by (intro conjI) assumption+
qed

section \<open>Stopping a scan\<close>

lemma stop_returns:
  assumes "pk < length (sessions w)" and "Drone_objects_get (session_drone s) w = Some row"
  shows "\<exists>w'. ScanService_stop e (pk, s) w =
            (Inr (pk, s\<lparr>session_is_active := False, ended_at := Some (now e)\<rparr>), w')
          \<and> sessions w' = (sessions w)[pk := (sessions w ! pk)
               \<lparr>session_is_active := False, ended_at := Some (now e)\<rparr>]
          \<and> published w' = published w
          \<and> active_sessions w' = active_sessions w
          \<and> (\<exists>row'. Drone_objects_get (session_drone s) w' = Some row'
                \<and> last_status row' = HOVERING)"
proof -
  define s' where "s' = s\<lparr>session_is_active := False, ended_at := Some (now e)\<rparr>"
  define w1 where "w1 = w\<lparr>sessions := (sessions w)[pk := (sessions w ! pk)
               \<lparr>session_is_active := False, ended_at := Some (now e)\<rparr>]\<rparr>"
  have sv: "ScanSession_save (Some [F_session_is_active, F_ended_at]) (pk, s') w = (Inr (), w1)"
    using assms(1) by (simp add: ScanSession_save_def s'_def w1_def)
  have rid: "drone_id row = session_drone s"
    using assms(2) by (rule Drone_objects_get_drone_id)
  have g1: "Drone_objects_get (session_drone s') w1 = Some row"
    using assms(2) by (simp add: Drone_objects_get_def w1_def s'_def)
  then have g1': "Drone_objects_get (drone_id row) w1 = Some row"
    using rid by (simp add: s'_def)
  from update_status_returns [OF g1', of e HOVERING]
  obtain d' w2 where us: "DroneService_update_status e row HOVERING w1 = (Inr d', w2)"
    and fr: "sessions w2 = sessions w1" "published w2 = published w1"
      "active_sessions w2 = active_sessions w1"
    and keep: "\<forall>k r. Drone_objects_get k w1 = Some r \<longrightarrow>
                (\<exists>r'. Drone_objects_get k w2 = Some r'
                   \<and> last_status r' = (if k = drone_id row then HOVERING else last_status r))"
    by blast
  from keep g1' obtain row' where row': "Drone_objects_get (drone_id row) w2 = Some row'"
      "last_status row' = HOVERING"
    by fastforce
  define w3 where "w3 = snd (LogService_log_drone_event e d'
                               (ScanStoppedText (fire_detections s') (smoke_detections s')) INFO w2)"
  have w3: "sessions w3 = sessions w2" "published w3 = published w2"
      "active_sessions w3 = active_sessions w2" "drones w3 = drones w2"
    by (simp_all add: w3_def LogService_log_drone_event_def LogService_create_def
          LogEntry_objects_create_def)
  have "ScanService_stop e (pk, s) w = (Inr (pk, s'), w3)"
    using sv g1 us
    by (simp add: ScanService_stop_def Let_def s'_def [symmetric] w3_def split: prod.splits)
  moreover have "Drone_objects_get (session_drone s) w3 = Some row'"
    using row'(1) w3(4) rid by (simp add: Drone_objects_get_def)
  ultimately show ?thesis
    using w3 fr row'(2) by (simp add: s'_def w1_def)
qed

text \<open>
  Claim C7. A \<^verbatim>\<open>STOP_SCAN\<close> command for a registered drone whose active session is
  \<open>s\<close> (the row with key \<open>pk\<close>) is acknowledged; afterwards that row is \<open>s\<close> with
  \<open>is_active\<close> false and \<open>ended_at\<close> set to the clock, the drone's stored status is the
  hovering status, the dispatcher has no entry for the drone, and three messages have
  been published, in this order: the \<open>SCAN_STOPPED\<close> status event with the session id
  and the session's three counters, the \<open>STOP_SCAN\<close> command with the session id on
  the command exchange under the drone's command topic, and the \<open>COMMAND_ACK\<close>.
\<close>

theorem stop_scan_command:
  assumes "json_loads e b = Some (JObj msg)" and "get msg ''command'' = JStr ''STOP_SCAN''"
      and "first_active (drone_id d) w = Some (pk, s)"
      and "Drone_objects_get (drone_id d) w = Some row"
  shows "\<exists>w'. on_gui_command e d b w = (Ack, w')
          \<and> sessions w' = (sessions w)[pk := s\<lparr>session_is_active := False, ended_at := Some (now e)\<rparr>]
          \<and> (\<exists>row'. Drone_objects_get (drone_id d) w' = Some row' \<and> last_status row' = HOVERING)
          \<and> active_sessions w' (drone_id d) = None
          \<and> published w' = published w @
              [\<lparr>exchange = EXCHANGE_GUI, routing_key = ''gui.'' @ drone_id d @ ''.status'',
                delivery_mode = 2,
                body = JObj [(''type'', JStr ''SCAN_STOPPED''),
                             (''timestamp'', JStr (isoformat e (now e))),
                             (''drone_id'', JStr (drone_id d)),
                             (''session_id'', JStr (session_id s)),
                             (''stats'',
                                JObj [(''total_frames'', JInt (total_frames_processed s)),
                                      (''fire_detections'', JInt (fire_detections s)),
                                      (''smoke_detections'', JInt (smoke_detections s))])]\<rparr>,
               \<lparr>exchange = EXCHANGE_COMMANDS, routing_key = command_topic d, delivery_mode = 2,
                body = JObj [(''timestamp'', JStr (local_isoformat e (now e))),
                             (''drone_id'', JStr (drone_id d)),
                             (''command'', JStr ''STOP_SCAN''),
                             (''session_id'', JStr (session_id s))]\<rparr>,
               \<lparr>exchange = EXCHANGE_GUI, routing_key = ''gui.'' @ drone_id d @ ''.status'',
                delivery_mode = 2,
                body = JObj [(''type'', JStr ''COMMAND_ACK''),
                             (''timestamp'', JStr (isoformat e (now e))),
                             (''drone_id'', JStr (drone_id d)),
                             (''command'', JStr ''STOP_SCAN''),
                             (''status'', JStr ''sent'')]\<rparr>]"
proof -
  note fa = first_active_row [OF assms(3)]
  have g: "Drone_objects_get (session_drone s) w = Some row"
    using assms(4) fa(3) by simp
  from stop_returns [OF fa(1) g, of e]
  obtain w1 where st: "ScanService_stop e (pk, s) w =
            (Inr (pk, s\<lparr>session_is_active := False, ended_at := Some (now e)\<rparr>), w1)"
    and ss: "sessions w1 = (sessions w)[pk := (sessions w ! pk)
               \<lparr>session_is_active := False, ended_at := Some (now e)\<rparr>]"
    and pb: "published w1 = published w"
    and dr: "\<exists>row'. Drone_objects_get (session_drone s) w1 = Some row'
                \<and> last_status row' = HOVERING"
    by blast
  from dr obtain row' where row': "find (\<lambda>x. drone_id x = drone_id d) (drones w1) = Some row'"
      "last_status row' = HOVERING"
    using fa(3) by (auto simp: Drone_objects_get_def)
  show ?thesis
    using assms(1) assms(2) assms(3) st ss pb row' fa(2)
    by (simp add: on_gui_command_def handle_stop_scan_def Let_def publish_gui_def
        send_command_def manager_publish_def stop_detection_def Drone_objects_get_def domIff)
qed

theorem stop_scan_command_witness:
  "json_loads example_env ''stop'' = Some (JObj [(''command'', JStr ''STOP_SCAN'')])
   \<and> get [(''command'', JStr ''STOP_SCAN'')] ''command'' = JStr ''STOP_SCAN''
   \<and> first_active (drone_id example_drone) example_scanning = Some (0, sessions example_scanning ! 0)
   \<and> Drone_objects_get (drone_id example_drone) example_scanning = Some (drones example_scanning ! 0)
   \<and> (\<exists>w'. on_gui_command example_env example_drone ''stop'' example_scanning = (Ack, w')
          \<and> sessions w' = [(sessions example_scanning ! 0)\<lparr>session_is_active := False,
                                                           ended_at := Some 5\<rparr>]
          \<and> (\<exists>row'. Drone_objects_get ''D-01'' w' = Some row' \<and> last_status row' = HOVERING)
          \<and> active_sessions w' ''D-01'' = None
          \<and> map routing_key (drop 3 (published w')) =
               [''gui.D-01.status'', ''drone.D-01.commands'', ''gui.D-01.status''])"
proof -
  have h1: "json_loads example_env ''stop'' = Some (JObj [(''command'', JStr ''STOP_SCAN'')])"
    by (simp add: example_env_def)
  have h2: "get [(''command'', JStr ''STOP_SCAN'')] ''command'' = JStr ''STOP_SCAN''"
    by (simp add: get_def)
  have h3: "first_active (drone_id example_drone) example_scanning
              = Some (0, sessions example_scanning ! 0)"
    by (simp add: example_scanning_eq)
       (simp add: first_active_def filter_active_def example_drone_def)
  have h4: "Drone_objects_get (drone_id example_drone) example_scanning
              = Some (drones example_scanning ! 0)"
    by (simp add: example_scanning_eq) (simp add: Drone_objects_get_def example_drone_def)
  have vals: "drone_id example_drone = ''D-01''" "now example_env = 5"
      "command_topic example_drone = ''drone.D-01.commands''"
      "length (published example_scanning) = 3"
    by (simp_all add: example_drone_def example_env_def example_scanning_eq)
  have upd: "(sessions example_scanning)[0 := v] = [v]" for v
    by (simp add: example_scanning_eq)
  from stop_scan_command [OF h1 h2 h3 h4]
  obtain w' where
    "on_gui_command example_env example_drone ''stop'' example_scanning = (Ack, w')"
    "sessions w' = (sessions example_scanning)[0 := (sessions example_scanning ! 0)
        \<lparr>session_is_active := False, ended_at := Some (now example_env)\<rparr>]"
    "\<exists>row'. Drone_objects_get (drone_id example_drone) w' = Some row' \<and> last_status row' = HOVERING"
    "active_sessions w' (drone_id example_drone) = None"
    "map routing_key (drop (length (published example_scanning)) (published w')) =
       [''gui.'' @ drone_id example_drone @ ''.status'', command_topic example_drone,
        ''gui.'' @ drone_id example_drone @ ''.status'']"
    by auto
  then have f:
    "on_gui_command example_env example_drone ''stop'' example_scanning = (Ack, w')"
    "sessions w' = [(sessions example_scanning ! 0)\<lparr>session_is_active := False,
                                                      ended_at := Some 5\<rparr>]"
    "\<exists>row'. Drone_objects_get ''D-01'' w' = Some row' \<and> last_status row' = HOVERING"
    "active_sessions w' ''D-01'' = None"
    "map routing_key (drop 3 (published w')) =
          [''gui.D-01.status'', ''drone.D-01.commands'', ''gui.D-01.status'']"
    unfolding vals upd by simp_all
  show ?thesis
    using h1 h2 h3 h4 f
    by (intro conjI exI [of _ w']) assumption+
qed

section \<open>A frame with one fire detection\<close>

text \<open>
  Claim C1 on the example: D-01 is scanning (its session and its dispatcher entry come
  from the \<^verbatim>\<open>START_SCAN\<close> the router handled) and the model finds one fire box with
  confidence 0.82 in the frame. The message is acknowledged; the video, the detection
  and one \<open>DETECTION_ALERT\<close> message are published; the session's frame and fire
  counters each end one higher. But two log entries of type \<open>FIRE_DETECTED\<close> with
  confidence 0.82 are written, one by \<^verbatim>\<open>FireSmokeDetector._log_detection\<close> inside the
  dispatcher and one by \<^verbatim>\<open>UnifiedConsumer._log_detection\<close>.
\<close>

theorem fire_frame_logged_twice:
  "fst (on_video example_env example_drone ''frame'' example_scanning) = Ack
   \<and> length (logs example_scanning) = 1
   \<and> length (published example_scanning) = 3
   \<and> map log_type (drop 1 (logs (snd (on_video example_env example_drone ''frame'' example_scanning))))
        = [FIRE_DETECTED, FIRE_DETECTED]
   \<and> map confidence (drop 1 (logs (snd (on_video example_env example_drone ''frame'' example_scanning))))
        = [Some 0.82, Some 0.82]
   \<and> map message (drop 1 (logs (snd (on_video example_env example_drone ''frame'' example_scanning))))
        = [DetectorDetectionText ''fire'' 0.82, RouterDetectionText ''fire'' 0.82]
   \<and> map routing_key
        (drop 3 (published (snd (on_video example_env example_drone ''frame'' example_scanning))))
        = [''gui.D-01.video'', ''gui.D-01.detection'', ''gui.D-01.alerts'']
   \<and> map total_frames_processed (sessions example_scanning) = [0]
   \<and> map fire_detections (sessions example_scanning) = [0]
   \<and> map total_frames_processed
        (sessions (snd (on_video example_env example_drone ''frame'' example_scanning))) = [1]
   \<and> map fire_detections
        (sessions (snd (on_video example_env example_drone ''frame'' example_scanning))) = [1]"
  by (simp add: example_scanning_eq) (simp add: model_defs)

end
